theory Spec2Isabelle
  imports Complex_Main "HOL-Library.Sublist"
begin

section \<open>Data model\<close>

text \<open>
  The development embeds the class \<open>SolanaWalletTracker\<close> (src/src/index.js) and the
  controller \<open>getWalletGains\<close>. Source methods whose names start with an underscore
  keep their names without it (\<open>_getTokenPrice\<close> is \<open>getTokenPrice\<close>).

  JavaScript numbers are idealised as \<open>real\<close>: prices, amounts and recorded cost
  bases are finite numbers, and \<open>NaN\<close> arises only from arithmetic on a value that is
  not a number (see \<open>js_value\<close>). An \<open>async\<close> method is modelled by the
  outcome of the promise it returns: \<open>Inl message\<close> when the promise rejects with an
  \<open>Error\<close> carrying that message, \<open>Inr value\<close> when it fulfils. The calls a method
  awaits are run one after the other in source order, and one call of a method happens
  at one clock reading \<open>now\<close> (milliseconds).
\<close>

type_synonym message = string

type_synonym 'a outcome = "message + 'a"

datatype price_source = CoinGecko | DexScreener | Raydium

datatype signal = Volume | SocialTraction | TokenAge

datatype level = Info | Warn | Error

text \<open>
  Everything the tracker does to the outside is recorded in a trace: a line written by
  the logger, an HTTP request to a price source, an evaluation of an eligibility signal,
  the RPC request for the token accounts, a read or a write of the cost-basis file.
\<close>

datatype event =
    Logged level string
  | HttpGet price_source string
  | SignalEvaluated signal string
  | RpcTokenAccounts string
  | FsRead
  | FsWrite string

subsection \<open>The TTL cache\<close>

text \<open>
  Modelled from the spec: the TTL cache behind \<open>priceCache\<close> and
  \<open>tokenMetadataCache\<close> is the package \<open>node-cache\<close>, which is not among the
  repository's sources. An entry holds its value and the time it expires at; a read after
  that time is a miss, a write starts a new TTL window of \<open>stdTTL\<close> seconds. As in the
  package, \<open>stdTTL = 0\<close> means that entries never expire, stored as expiry time 0.
\<close>

record ('k, 'v) NodeCache =
  stdTTL :: nat
  entries :: "'k \<rightharpoonup> ('v \<times> nat)"

definition new_NodeCache :: "nat \<Rightarrow> ('k, 'v) NodeCache" where
  "new_NodeCache ttl = \<lparr>stdTTL = ttl, entries = Map.empty\<rparr>"

definition cache_get :: "('k, 'v) NodeCache \<Rightarrow> nat \<Rightarrow> 'k \<Rightarrow> 'v option" where
  "cache_get c now k =
     (case entries c k of
        None \<Rightarrow> None
      | Some (v, t) \<Rightarrow> if t \<noteq> 0 \<and> t < now then None else Some v)"

definition cache_set :: "('k, 'v) NodeCache \<Rightarrow> nat \<Rightarrow> 'k \<Rightarrow> 'v \<Rightarrow> ('k, 'v) NodeCache" where
  "cache_set c now k v =
     c\<lparr>entries := (entries c)(k \<mapsto> (v, if stdTTL c = 0 then 0 else now + stdTTL c * 1000))\<rparr>"

text \<open>A later clock reading \<open>later\<close> lies in the TTL window of a write made at \<open>now\<close>.\<close>

definition within_ttl :: "('k, 'v) NodeCache \<Rightarrow> nat \<Rightarrow> nat \<Rightarrow> bool" where
  "within_ttl c now later = (stdTTL c = 0 \<or> later \<le> now + stdTTL c * 1000)"

subsection \<open>The tracker and the world around it\<close>

text \<open>
  The fields of \<open>SolanaWalletTracker\<close> that its methods read or write, together with the
  file \<open>cost-basis.json\<close> (\<open>None\<close> when the file does not exist) and the trace.
\<close>

record tracker =
  priceCache :: "(string, real) NodeCache"
  tokenMetadataCache :: "(string, bool) NodeCache"
  costBasisFile :: "string option"
  trace :: "event list"

text \<open>
  What \<open>getParsedTokenAccountsByOwner\<close> yields for one token account:
  \<open>account.data.parsed.info.mint\<close> and \<open>tokenAmount.uiAmount\<close>.
\<close>

record token_account =
  mint :: string
  uiAmount :: real

text \<open>
  The collaborators, fixed while a call runs. The HTTP client answers a price source's
  request with the part of \<open>response.data\<close> the source method reads: for CoinGecko
  and Raydium an object from keys to entries, each entry reduced to its \<open>usd\<close>
  (respectively \<open>price\<close>) field, \<open>None\<close> when the field is missing; for DexScreener
  the array \<open>pairs\<close> (\<open>None\<close> when it is \<open>null\<close>), each pair reduced to its
  \<open>priceUsd\<close> field. The three eligibility signals are the overridable methods
  \<open>_checkTokenVolume\<close>, \<open>_checkSocialTraction\<close> and \<open>_checkTokenAge\<close>.
  \<open>JSON_parse\<close> is the built-in \<open>JSON.parse\<close>, restricted to objects whose values
  are numbers. \<open>PublicKey_new\<close> is the answer of the constructor \<open>PublicKey\<close> on a
  non-empty base-58 text.
\<close>

record world =
  PublicKey_new :: "string \<Rightarrow> string outcome"
  getParsedTokenAccountsByOwner :: "string \<Rightarrow> token_account list outcome"
  coingecko_get :: "string \<Rightarrow> (string \<rightharpoonup> real option) outcome"
  dexscreener_get :: "string \<Rightarrow> (real option list) option outcome"
  raydium_get :: "string \<Rightarrow> (string \<rightharpoonup> real option) outcome"
  checkTokenVolume :: "string \<Rightarrow> bool outcome"
  checkSocialTraction :: "string \<Rightarrow> bool outcome"
  checkTokenAge :: "string \<Rightarrow> bool outcome"
  JSON_parse :: "string \<Rightarrow> (string \<rightharpoonup> real) outcome"
  fs_writable :: bool

definition record_event :: "event \<Rightarrow> tracker \<Rightarrow> tracker" where
  "record_event e s = s\<lparr>trace := trace s @ [e]\<rparr>"

definition logger :: "level \<Rightarrow> string \<Rightarrow> tracker \<Rightarrow> tracker" where
  "logger l text s = record_event (Logged l text) s"

text \<open>
  The constructor with its default configuration: price entries live 300 seconds, token
  metadata 3600 seconds. (The transaction cache is never read or written.)
\<close>

definition createTracker :: "string option \<Rightarrow> tracker" where
  "createTracker file =
     \<lparr>priceCache = new_NodeCache 300, tokenMetadataCache = new_NodeCache 3600,
      costBasisFile = file, trace = []\<rparr>"

section \<open>Price resolution\<close>

text \<open>\<open>x || 0\<close> on an optional number: \<open>undefined\<close> and \<open>0\<close> both give \<open>0\<close>.\<close>

definition or_zero :: "real option \<Rightarrow> real" where
  "or_zero x = (case x of None \<Rightarrow> 0 | Some v \<Rightarrow> if v = 0 then 0 else v)"

text \<open>\<open>String.prototype.toLowerCase\<close> on ASCII text.\<close>

definition toLowerCase :: "string \<Rightarrow> string" where
  "toLowerCase str =
     map (\<lambda>c. if 65 \<le> (of_char c :: nat) \<and> (of_char c :: nat) \<le> 90
               then char_of ((of_char c :: nat) + 32) else c) str"

definition fetchCoinGeckoPrice :: "world \<Rightarrow> string \<Rightarrow> real outcome" where
  "fetchCoinGeckoPrice w mintAddress =
     (case coingecko_get w mintAddress of
        Inl err \<Rightarrow> Inl err
      | Inr data \<Rightarrow>
          Inr (or_zero (case data (toLowerCase mintAddress) of
                          None \<Rightarrow> None | Some usd \<Rightarrow> usd)))"

definition fetchDexScreenerPrice :: "world \<Rightarrow> string \<Rightarrow> real outcome" where
  "fetchDexScreenerPrice w mintAddress =
     (case dexscreener_get w mintAddress of
        Inl err \<Rightarrow> Inl err
      | Inr None \<Rightarrow> Inl ''Cannot read properties of null (reading '0')''
      | Inr (Some pairs) \<Rightarrow>
          Inr (or_zero (case pairs of [] \<Rightarrow> None | priceUsd # _ \<Rightarrow> priceUsd)))"

definition fetchRaydiumPrice :: "world \<Rightarrow> string \<Rightarrow> real outcome" where
  "fetchRaydiumPrice w mintAddress =
     (case raydium_get w mintAddress of
        Inl err \<Rightarrow> Inl err
      | Inr data \<Rightarrow>
          Inr (or_zero (case data mintAddress of None \<Rightarrow> None | Some price \<Rightarrow> price)))"

definition priceSources :: "price_source list" where
  "priceSources = [CoinGecko, DexScreener, Raydium]"

fun priceSource :: "world \<Rightarrow> price_source \<Rightarrow> string \<Rightarrow> real outcome" where
  "priceSource w CoinGecko mintAddress = fetchCoinGeckoPrice w mintAddress"
| "priceSource w DexScreener mintAddress = fetchDexScreenerPrice w mintAddress"
| "priceSource w Raydium mintAddress = fetchRaydiumPrice w mintAddress"

text \<open>
  The loop \<open>for (const priceSource of priceSources)\<close>: a price above zero is cached
  and returned, anything else moves on to the next source, a thrown error after a
  warning. After the last source the method returns \<open>0\<close>.
\<close>

fun try_sources ::
  "world \<Rightarrow> nat \<Rightarrow> string \<Rightarrow> price_source list \<Rightarrow> tracker \<Rightarrow> real outcome \<times> tracker" where
  "try_sources w now mintAddress [] s = (Inr 0, s)"
| "try_sources w now mintAddress (src # rest) s =
     (let s1 = record_event (HttpGet src mintAddress) s in
      case priceSource w src mintAddress of
        Inr price \<Rightarrow>
          if 0 < price
          then (Inr price, s1\<lparr>priceCache := cache_set (priceCache s1) now mintAddress price\<rparr>)
          else try_sources w now mintAddress rest s1
      | Inl err \<Rightarrow>
          try_sources w now mintAddress rest (logger Warn (''Price fetch error: '' @ err) s1))"

text \<open>\<open>if (cachedPrice) return cachedPrice\<close>: only a cached price other than \<open>0\<close> is a hit.\<close>

definition getTokenPrice :: "world \<Rightarrow> nat \<Rightarrow> tracker \<Rightarrow> string \<Rightarrow> real outcome \<times> tracker" where
  "getTokenPrice w now s mintAddress =
     (case cache_get (priceCache s) now mintAddress of
        Some cachedPrice \<Rightarrow>
          if cachedPrice \<noteq> 0 then (Inr cachedPrice, s)
          else try_sources w now mintAddress priceSources s
      | None \<Rightarrow> try_sources w now mintAddress priceSources s)"

text \<open>The price sources requested in a trace, in the order of the requests.\<close>

fun sources_called :: "event list \<Rightarrow> price_source list" where
  "sources_called [] = []"
| "sources_called (HttpGet src _ # es) = src # sources_called es"
| "sources_called (_ # es) = sources_called es"

text \<open>A source is skipped when it throws or returns a price that is not above zero.\<close>

definition skipped :: "real outcome \<Rightarrow> bool" where
  "skipped out = (case out of Inl _ \<Rightarrow> True | Inr price \<Rightarrow> \<not> 0 < price)"

section \<open>Token eligibility\<close>

text \<open>
  The placeholder bodies of the three signal methods as the source has them: each
  returns \<open>false\<close>. A world that uses them is \<open>with_placeholder_signals\<close>.
\<close>

definition placeholder_signal :: "string \<Rightarrow> bool outcome" where
  "placeholder_signal mintAddress = Inr False"

definition with_placeholder_signals :: "world \<Rightarrow> world" where
  "with_placeholder_signals w =
     w\<lparr>checkTokenVolume := placeholder_signal, checkSocialTraction := placeholder_signal,
       checkTokenAge := placeholder_signal\<rparr>"

text \<open>
  \<open>Promise.all\<close> over promises that have all been started: it fulfils with the list of
  values, or rejects with the first rejection. When several promises reject, which one is
  first depends on the order they settle in; the list order stands for it here, and no
  statement below depends on which of the rejections is taken.
\<close>

fun Promise_all :: "'a outcome list \<Rightarrow> 'a list outcome" where
  "Promise_all [] = Inr []"
| "Promise_all (Inl err # rest) = Inl err"
| "Promise_all (Inr v # rest) =
     (case Promise_all rest of Inl err \<Rightarrow> Inl err | Inr vs \<Rightarrow> Inr (v # vs))"

text \<open>
  \<open>cachedResult !== undefined\<close>: a cached \<open>false\<close> is a hit too. On a miss the three
  signals are all started, and any rejection lands in the \<open>catch\<close>, which warns and
  returns \<open>false\<close> without writing the cache.
\<close>

definition isTradableMemeToken :: "world \<Rightarrow> nat \<Rightarrow> tracker \<Rightarrow> string \<Rightarrow> bool outcome \<times> tracker" where
  "isTradableMemeToken w now s mintAddress =
     (case cache_get (tokenMetadataCache s) now mintAddress of
        Some cachedResult \<Rightarrow> (Inr cachedResult, s)
      | None \<Rightarrow>
          (let s1 = record_event (SignalEvaluated TokenAge mintAddress)
                     (record_event (SignalEvaluated SocialTraction mintAddress)
                       (record_event (SignalEvaluated Volume mintAddress) s))
           in case Promise_all [checkTokenVolume w mintAddress,
                                checkSocialTraction w mintAddress,
                                checkTokenAge w mintAddress] of
                Inr signals \<Rightarrow>
                  (let isTradable = (2 \<le> length (filter (\<lambda>b. b) signals))
                   in (Inr isTradable,
                       s1\<lparr>tokenMetadataCache :=
                            cache_set (tokenMetadataCache s1) now mintAddress isTradable\<rparr>))
              | Inl err \<Rightarrow> (Inr False, logger Warn (''Token detection error: '' @ err) s1)))"

text \<open>The signals evaluated in a trace.\<close>

fun signals_evaluated :: "event list \<Rightarrow> (signal \<times> string) list" where
  "signals_evaluated [] = []"
| "signals_evaluated (SignalEvaluated sg m # es) = (sg, m) # signals_evaluated es"
| "signals_evaluated (_ # es) = signals_evaluated es"

text \<open>The rule in the spec's words: at least two of the three signals are true.\<close>

definition at_least_two_of_three :: "bool \<Rightarrow> bool \<Rightarrow> bool \<Rightarrow> bool" where
  "at_least_two_of_three a b c = ((a \<and> b) \<or> (a \<and> c) \<or> (b \<and> c))"

section \<open>Cost basis\<close>

text \<open>
  \<open>fs.readFile\<close> rejects when the file does not exist; \<open>fs.writeFile\<close> rejects when
  the location cannot be written. \<open>JSON.stringify({})\<close> is the text \<open>{}\<close>.
\<close>

definition fs_readFile :: "tracker \<Rightarrow> string outcome \<times> tracker" where
  "fs_readFile s =
     (case costBasisFile s of
        None \<Rightarrow> (Inl ''ENOENT: no such file or directory'', record_event FsRead s)
      | Some fileContent \<Rightarrow> (Inr fileContent, record_event FsRead s))"

definition fs_writeFile :: "world \<Rightarrow> string \<Rightarrow> tracker \<Rightarrow> unit outcome \<times> tracker" where
  "fs_writeFile w text s =
     (if fs_writable w then (Inr (), record_event (FsWrite text) (s\<lparr>costBasisFile := Some text\<rparr>))
      else (Inl ''EACCES: permission denied'', s))"

definition JSON_stringify_empty :: string where
  "JSON_stringify_empty = ''{}''"

text \<open>
  \<open>JSON.parse\<close> on the text of the file. The text \<open>{}\<close> is the empty object; what any
  other text parses to is the world's answer.
\<close>

definition JSON_parse_object :: "world \<Rightarrow> string \<Rightarrow> (string \<rightharpoonup> real) outcome" where
  "JSON_parse_object w text = (if text = ''{}'' then Inr Map.empty else JSON_parse w text)"

text \<open>
  What \<open>costBasisData[key]\<close> can be: a number the object holds itself, or, for a key the
  object does not hold, the member of that name that every object inherits from
  \<open>Object.prototype\<close> (the prototype itself for \<open>__proto__\<close>, a function for the
  others). Such a member is an object, hence truthy, and arithmetic on it gives \<open>NaN\<close>.
\<close>

datatype js_value = Number real | NaN | Inherited string

definition Object_prototype_keys :: "string list" where
  "Object_prototype_keys =
     [''constructor'', ''__defineGetter__'', ''__defineSetter__'', ''hasOwnProperty'',
      ''__lookupGetter__'', ''__lookupSetter__'', ''isPrototypeOf'', ''propertyIsEnumerable'',
      ''toString'', ''valueOf'', ''__proto__'', ''toLocaleString'']"

definition get_property :: "(string \<rightharpoonup> real) \<Rightarrow> string \<Rightarrow> js_value option" where
  "get_property obj key =
     (case obj key of
        Some v \<Rightarrow> Some (Number v)
      | None \<Rightarrow> if key \<in> set Object_prototype_keys then Some (Inherited key) else None)"

text \<open>\<open>x || 0\<close> on such a value: \<open>undefined\<close>, \<open>0\<close> and \<open>NaN\<close> give \<open>0\<close>.\<close>

fun value_or_zero :: "js_value option \<Rightarrow> js_value" where
  "value_or_zero None = Number 0"
| "value_or_zero (Some (Number v)) = (if v = 0 then Number 0 else Number v)"
| "value_or_zero (Some NaN) = Number 0"
| "value_or_zero (Some (Inherited name)) = Inherited name"

text \<open>\<open>a - x\<close> for a number \<open>a\<close>.\<close>

fun js_minus :: "real \<Rightarrow> js_value \<Rightarrow> js_value" where
  "js_minus a (Number b) = Number (a - b)"
| "js_minus a NaN = NaN"
| "js_minus a (Inherited name) = NaN"

text \<open>
  The inner \<open>try\<close> reads and parses the file; its \<open>catch\<close> takes a failed read and a
  failed parse alike and writes an empty object to the file, leaving \<open>costBasisData\<close>
  empty. The outer \<open>catch\<close> takes a failed write: it logs and returns \<open>0\<close>.
\<close>

definition load_costBasisData ::
  "world \<Rightarrow> tracker \<Rightarrow> (string \<rightharpoonup> real) outcome \<times> tracker" where
  "load_costBasisData w s =
     (let create_new = (\<lambda>s1. case fs_writeFile w JSON_stringify_empty s1 of
                                (Inl err, s2) \<Rightarrow> (Inl err, s2)
                              | (Inr _, s2) \<Rightarrow> (Inr Map.empty, s2))
      in case fs_readFile s of
           (Inl err, s1) \<Rightarrow> create_new s1
         | (Inr fileContent, s1) \<Rightarrow>
             (case JSON_parse_object w fileContent of
                Inl err \<Rightarrow> create_new s1
              | Inr costBasisData \<Rightarrow> (Inr costBasisData, s1)))"

definition trackCostBasis ::
  "world \<Rightarrow> tracker \<Rightarrow> string \<Rightarrow> string \<Rightarrow> js_value outcome \<times> tracker" where
  "trackCostBasis w s walletAddress mintAddress =
     (case load_costBasisData w s of
        (Inr costBasisData, s1) \<Rightarrow>
          (let key = walletAddress @ ''_'' @ mintAddress
           in (Inr (value_or_zero (get_property costBasisData key)), s1))
      | (Inl err, s1) \<Rightarrow>
          (Inr (Number 0), logger Error (''Cost basis tracking error: '' @ err) s1))"

text \<open>
  A wallet and mint pair has no prior record when the file is missing, cannot be parsed,
  or parses to an object without the pair's key.
\<close>

definition no_prior_record :: "world \<Rightarrow> tracker \<Rightarrow> string \<Rightarrow> string \<Rightarrow> bool" where
  "no_prior_record w s walletAddress mintAddress =
     (case costBasisFile s of
        None \<Rightarrow> True
      | Some fileContent \<Rightarrow>
          (case JSON_parse_object w fileContent of
             Inl err \<Rightarrow> True
           | Inr costBasisData \<Rightarrow> costBasisData (walletAddress @ ''_'' @ mintAddress) = None))"

text \<open>
  The key of a wallet and mint pair is plain when it is not the name of a member of
  \<open>Object.prototype\<close>.
\<close>

definition plain_key :: "string \<Rightarrow> string \<Rightarrow> bool" where
  "plain_key walletAddress mintAddress =
     (walletAddress @ ''_'' @ mintAddress \<notin> set Object_prototype_keys)"

section \<open>Gains calculation\<close>

record gain_result =
  token :: string
  currentPrice :: real
  amount :: real
  costBasis :: js_value
  totalValue :: real
  unrealizedGain :: js_value

text \<open>
  Modelled from the spec: the constructor \<open>PublicKey\<close> is the package
  \<open>@solana/web3.js\<close>, which is not among the repository's sources. Validation fails on
  an empty text and on a text that fails the address-encoding check; the encoding is
  base 58, so a text with a character outside the base-58 alphabet is refused. Whether a
  non-empty base-58 text is a key is the world's answer.
\<close>

definition base58_alphabet :: string where
  "base58_alphabet = ''123456789ABCDEFGHJKLMNPQRSTUVWXYZabcdefghijkmnopqrstuvwxyz''"

definition PublicKey :: "world \<Rightarrow> string \<Rightarrow> string outcome" where
  "PublicKey w text =
     (if text \<noteq> [] \<and> list_all (\<lambda>c. c \<in> set base58_alphabet) text
      then PublicKey_new w text
      else Inl ''Invalid public key input'')"

definition validateWalletAddress :: "world \<Rightarrow> tracker \<Rightarrow> string \<Rightarrow> string outcome \<times> tracker" where
  "validateWalletAddress w s walletAddress =
     (case PublicKey w walletAddress of
        Inr publicKey \<Rightarrow> (Inr publicKey, s)
      | Inl err \<Rightarrow>
          (Inl ''Invalid Solana wallet address'',
           logger Error (''Invalid wallet address: '' @ walletAddress) s))"

text \<open>
  What a callback hands back to \<open>Array.prototype.filter\<close>, and the \<open>ToBoolean\<close> that
  \<open>filter\<close> applies to it. An \<open>async\<close> callback hands back a promise, which is an
  object, and every object is truthy.
\<close>

datatype callback_result = Plain bool | PromiseOf "bool outcome"

fun ToBoolean :: "callback_result \<Rightarrow> bool" where
  "ToBoolean (Plain b) = b"
| "ToBoolean (PromiseOf out) = True"

text \<open>
  \<open>tokenAccounts.value.filter(async (account) => await this._isTradableMemeToken(...))\<close>:
  the callback runs the eligibility check of each account, \<open>filter\<close> sees the promise.
\<close>

fun filter_tradable ::
  "world \<Rightarrow> nat \<Rightarrow> token_account list \<Rightarrow> tracker \<Rightarrow> token_account list \<times> tracker" where
  "filter_tradable w now [] s = ([], s)"
| "filter_tradable w now (account # rest) s =
     (case isTradableMemeToken w now s (mint account) of
        (out, s1) \<Rightarrow>
          (case filter_tradable w now rest s1 of
             (kept, s2) \<Rightarrow>
               (if ToBoolean (PromiseOf out) then account # kept else kept, s2)))"

text \<open>The \<open>map\<close> callback for one account.\<close>

definition gain_of_account ::
  "world \<Rightarrow> nat \<Rightarrow> string \<Rightarrow> token_account \<Rightarrow> tracker \<Rightarrow> gain_result outcome \<times> tracker" where
  "gain_of_account w now walletAddress account s =
     (case getTokenPrice w now s (mint account) of
        (Inl err, s1) \<Rightarrow> (Inl err, s1)
      | (Inr price, s1) \<Rightarrow>
          (case trackCostBasis w s1 walletAddress (mint account) of
             (Inl err, s2) \<Rightarrow> (Inl err, s2)
           | (Inr basis, s2) \<Rightarrow>
               (Inr \<lparr>token = mint account, currentPrice = price, amount = uiAmount account,
                     costBasis = basis, totalValue = price * uiAmount account,
                     unrealizedGain = js_minus (price * uiAmount account) basis\<rparr>, s2)))"

fun map_gains ::
  "world \<Rightarrow> nat \<Rightarrow> string \<Rightarrow> token_account list \<Rightarrow> tracker \<Rightarrow> gain_result outcome list \<times> tracker" where
  "map_gains w now walletAddress [] s = ([], s)"
| "map_gains w now walletAddress (account # rest) s =
     (case gain_of_account w now walletAddress account s of
        (out, s1) \<Rightarrow>
          (case map_gains w now walletAddress rest s1 of
             (outs, s2) \<Rightarrow> (out # outs, s2)))"

text \<open>The \<open>catch\<close> of \<open>calculateGains\<close>: log the error, throw a new one that quotes it.\<close>

text \<open>
  In \<open>calculateGains\<close> the callbacks of \<open>filter\<close> and of \<open>map\<close> run account by
  account in list order, each to its end before the next starts; the eligibility checks
  that \<open>filter\<close> starts, which the source never awaits, are run to their end as well.
  The collaborators answer as functions of their arguments, so the values computed for an
  account do not depend on how the awaited calls of different accounts interleave.
\<close>

definition escalate :: "message \<Rightarrow> tracker \<Rightarrow> 'a outcome \<times> tracker" where
  "escalate err s =
     (Inl (''Wallet gains calculation failed: '' @ err),
      logger Error (''Gains calculation error: '' @ err) s)"

definition calculateGains ::
  "world \<Rightarrow> nat \<Rightarrow> tracker \<Rightarrow> string \<Rightarrow> gain_result list outcome \<times> tracker" where
  "calculateGains w now s walletAddress =
     (case validateWalletAddress w s walletAddress of
        (Inl err, s1) \<Rightarrow> escalate err s1
      | (Inr publicKey, s1) \<Rightarrow>
          (let s2 = record_event (RpcTokenAccounts publicKey) s1
           in case getParsedTokenAccountsByOwner w publicKey of
                Inl err \<Rightarrow> escalate err s2
              | Inr tokenAccounts \<Rightarrow>
                  (case filter_tradable w now tokenAccounts s2 of
                     (tradable, s3) \<Rightarrow>
                       (case map_gains w now walletAddress tradable s3 of
                          (outs, s4) \<Rightarrow>
                            (case Promise_all outs of
                               Inl err \<Rightarrow> escalate err s4
                             | Inr gainResults \<Rightarrow>
                                 (Inr (filter (\<lambda>result. 0 < totalValue result) gainResults),
                                  logger Info (''Calculated gains for wallet '' @ walletAddress)
                                    s4))))))"

section \<open>The controller\<close>

text \<open>
  \<open>getWalletGains\<close> of the controller. \<open>req.params.address\<close> is \<open>None\<close> when the
  parameter is undefined. The controller either answers with a status and a JSON body or
  hands the error to \<open>next\<close>. Its \<open>calculateGains\<close> comes from the service module and
  is a parameter here; it works on a state of its own.
\<close>

datatype 'r response_body =
    MessageBody bool string
  | DataBody bool 'r

datatype 'r http_outcome =
    Responded nat "'r response_body"
  | Forwarded message

definition getWalletGains ::
  "(string \<Rightarrow> 's \<Rightarrow> 'r outcome \<times> 's) \<Rightarrow> string option \<Rightarrow> 's \<Rightarrow> 'r http_outcome \<times> 's" where
  "getWalletGains calc address s =
     (case address of
        None \<Rightarrow> (Responded 400 (MessageBody False ''Invalid wallet address''), s)
      | Some addr \<Rightarrow>
          if addr = [] \<or> length addr < 32
          then (Responded 400 (MessageBody False ''Invalid wallet address''), s)
          else (case calc addr s of
                  (Inr results, s1) \<Rightarrow> (Responded 200 (DataBody True results), s1)
                | (Inl err, s1) \<Rightarrow> (Forwarded err, s1)))"

section \<open>The gain result of a holding, in the spec's words\<close>

text \<open>
  The price the oracle resolves for a mint and the cost basis the store records for a
  wallet and mint pair, both as seen from the state a call of \<open>calculateGains\<close> starts
  in; and the record the spec describes for a holding: its mint and amount, that price,
  that cost basis, \<open>totalValue = currentPrice * amount\<close> and
  \<open>unrealizedGain = totalValue - costBasis\<close>.
\<close>

definition resolved_price :: "world \<Rightarrow> nat \<Rightarrow> tracker \<Rightarrow> string \<Rightarrow> real" where
  "resolved_price w now s mintAddress =
     (case fst (getTokenPrice w now s mintAddress) of Inr price \<Rightarrow> price | Inl err \<Rightarrow> 0)"

definition recorded_basis :: "world \<Rightarrow> tracker \<Rightarrow> string \<Rightarrow> string \<Rightarrow> js_value" where
  "recorded_basis w s walletAddress mintAddress =
     (case fst (trackCostBasis w s walletAddress mintAddress) of
        Inr basis \<Rightarrow> basis | Inl err \<Rightarrow> Number 0)"

definition gain_result_of ::
  "world \<Rightarrow> nat \<Rightarrow> tracker \<Rightarrow> string \<Rightarrow> token_account \<Rightarrow> gain_result" where
  "gain_result_of w now s walletAddress account =
     \<lparr>token = mint account,
      currentPrice = resolved_price w now s (mint account),
      amount = uiAmount account,
      costBasis = recorded_basis w s walletAddress (mint account),
      totalValue = resolved_price w now s (mint account) * uiAmount account,
      unrealizedGain =
        js_minus (resolved_price w now s (mint account) * uiAmount account)
          (recorded_basis w s walletAddress (mint account))\<rparr>"

section \<open>Concrete worlds\<close>

text \<open>
  A wallet with two token accounts. \<open>MintA\<close> passes the volume and the social signal,
  \<open>MintB\<close> passes none. CoinGecko answers 429, DexScreener quotes 2 for \<open>MintA\<close> and 3
  for \<open>MintB\<close>, Raydium knows neither. The cost-basis file records 5 for \<open>MintA\<close>.
\<close>

definition demo_wallet :: string where
  "demo_wallet = ''7xKXtg2CW87d97TXJSDpbD5jBkheTqA83TZRuJosgAsU''"

definition demo_file :: string where
  \<open>demo_file = ''{"7xKXtg2CW87d97TXJSDpbD5jBkheTqA83TZRuJosgAsU_MintA":5}''\<close>

definition demo_world :: world where
  "demo_world =
     \<lparr>PublicKey_new = (\<lambda>address. Inr address),
      getParsedTokenAccountsByOwner =
        (\<lambda>publicKey. Inr [\<lparr>mint = ''MintA'', uiAmount = 10\<rparr>, \<lparr>mint = ''MintB'', uiAmount = 1\<rparr>]),
      coingecko_get = (\<lambda>m. Inl ''Request failed with status code 429''),
      dexscreener_get = (\<lambda>m. Inr (Some [Some (if m = ''MintA'' then 2 else 3)])),
      raydium_get = (\<lambda>m. Inr Map.empty),
      checkTokenVolume = (\<lambda>m. Inr (m = ''MintA'')),
      checkSocialTraction = (\<lambda>m. Inr (m = ''MintA'')),
      checkTokenAge = (\<lambda>m. Inr False),
      JSON_parse =
        (\<lambda>text. if text = ''{}'' then Inr Map.empty
                 else if text = demo_file then Inr [demo_wallet @ ''_MintA'' \<mapsto> 5]
                 else Inl ''Unexpected token in JSON''),
      fs_writable = True\<rparr>"

definition demo_tracker :: tracker where
  "demo_tracker = createTracker (Some demo_file)"

text \<open>The gain results computed for the two token accounts of that wallet.\<close>

definition demo_gain_A :: gain_result where
  "demo_gain_A = \<lparr>token = ''MintA'', currentPrice = 2, amount = 10, costBasis = Number 5,
                   totalValue = 20, unrealizedGain = Number 15\<rparr>"

definition demo_gain_B :: gain_result where
  "demo_gain_B = \<lparr>token = ''MintB'', currentPrice = 3, amount = 1, costBasis = Number 0,
                   totalValue = 3, unrealizedGain = Number 3\<rparr>"

text \<open>The same world with DexScreener answering \<open>pairs: null\<close>: no source has a price.\<close>

definition dead_world :: world where
  "dead_world = demo_world\<lparr>dexscreener_get := (\<lambda>m. Inr None)\<rparr>"

text \<open>The same world with the age signal throwing.\<close>

definition outage_world :: world where
  "outage_world = demo_world\<lparr>checkTokenAge := (\<lambda>m. Inl ''age lookup timed out'')\<rparr>"

text \<open>The same world with the RPC node refusing the connection.\<close>

definition rpc_down_world :: world where
  "rpc_down_world =
     demo_world\<lparr>getParsedTokenAccountsByOwner := (\<lambda>publicKey. Inl ''connect ECONNREFUSED 10.0.0.5:8899'')\<rparr>"

text \<open>The same world with the cost-basis file on a read-only location.\<close>

definition readonly_world :: world where
  "readonly_world = demo_world\<lparr>fs_writable := False\<rparr>"

text \<open>The same world with DexScreener listing no pair for \<open>MintB\<close>: it has no price.\<close>

definition unlisted_world :: world where
  "unlisted_world =
     demo_world\<lparr>dexscreener_get := (\<lambda>m. Inr (Some (if m = ''MintA'' then [Some 2] else [])))\<rparr>"

section \<open>Basic facts\<close>

lemmas demo_defs =
  demo_world_def demo_tracker_def demo_file_def demo_wallet_def dead_world_def
  outage_world_def rpc_down_world_def readonly_world_def unlisted_world_def
  createTracker_def new_NodeCache_def

lemmas model_defs =
  cache_get_def cache_set_def within_ttl_def record_event_def logger_def
  getTokenPrice_def priceSources_def fetchCoinGeckoPrice_def fetchDexScreenerPrice_def
  fetchRaydiumPrice_def or_zero_def skipped_def isTradableMemeToken_def
  trackCostBasis_def load_costBasisData_def fs_readFile_def fs_writeFile_def
  JSON_stringify_empty_def JSON_parse_object_def get_property_def Object_prototype_keys_def
  no_prior_record_def plain_key_def PublicKey_def base58_alphabet_def
  validateWalletAddress_def

lemma sources_called_append:
  "sources_called (es @ fs) = sources_called es @ sources_called fs"
  by (induction es rule: sources_called.induct) simp_all

lemma record_event_fields [simp]:
  "priceCache (record_event e s) = priceCache s"
  "tokenMetadataCache (record_event e s) = tokenMetadataCache s"
  "costBasisFile (record_event e s) = costBasisFile s"
  "trace (record_event e s) = trace s @ [e]"
  by (simp_all add: record_event_def)

lemma logger_fields [simp]:
  "priceCache (logger l t s) = priceCache s"
  "tokenMetadataCache (logger l t s) = tokenMetadataCache s"
  "costBasisFile (logger l t s) = costBasisFile s"
  "trace (logger l t s) = trace s @ [Logged l t]"
  by (simp_all add: logger_def)

lemma cache_get_set:
  "within_ttl c now later \<Longrightarrow> cache_get (cache_set c now k v) later k = Some v"
  by (auto simp: cache_get_def cache_set_def within_ttl_def)

lemma stdTTL_cache_set [simp]: "stdTTL (cache_set c now k v) = stdTTL c"
  by (simp add: cache_set_def)

lemma try_sources_hit:
  assumes "\<forall>x\<in>set pre. skipped (priceSource w x m)"
    and "priceSource w src m = Inr p" and "0 < p"
  shows "fst (try_sources w now m (pre @ src # post) s) = Inr p \<and>
         priceCache (snd (try_sources w now m (pre @ src # post) s)) = cache_set (priceCache s) now m p \<and>
         sources_called (trace (snd (try_sources w now m (pre @ src # post) s)))
           = sources_called (trace s) @ pre @ [src]"
  using assms
proof (induction pre arbitrary: s)
  case Nil
  then show ?case by (simp add: Let_def sources_called_append)
next
  case (Cons a pre)
  then show ?case
    by (cases "priceSource w a m") (simp_all add: Let_def skipped_def sources_called_append)
qed

lemma try_sources_all_skipped:
  assumes "\<forall>x\<in>set srcs. skipped (priceSource w x m)"
  shows "fst (try_sources w now m srcs s) = Inr 0 \<and>
         priceCache (snd (try_sources w now m srcs s)) = priceCache s \<and>
         sources_called (trace (snd (try_sources w now m srcs s)))
           = sources_called (trace s) @ srcs"
  using assms
proof (induction srcs arbitrary: s)
  case Nil
  then show ?case by simp
next
  case (Cons a srcs)
  then show ?case
    by (cases "priceSource w a m") (simp_all add: Let_def skipped_def sources_called_append)
qed

lemma try_sources_fulfils: "\<exists>p. fst (try_sources w now m srcs s) = Inr p"
proof (induction srcs arbitrary: s)
  case Nil
  then show ?case by simp
next
  case (Cons a srcs)
  then show ?case
    by (cases "priceSource w a m") (simp_all add: Let_def)
qed

lemma getTokenPrice_fulfils: "\<exists>p. fst (getTokenPrice w now s m) = Inr p"
  using try_sources_fulfils [of w now m priceSources s]
  by (auto simp: getTokenPrice_def split: option.splits)

lemma signals_evaluated_append:
  "signals_evaluated (es @ fs) = signals_evaluated es @ signals_evaluated fs"
  by (induction es rule: signals_evaluated.induct) simp_all

text \<open>With the placeholder signals of the source no mint is tradable on a cache miss.\<close>

lemma placeholder_never_tradable:
  "cache_get (tokenMetadataCache s) now m = None \<Longrightarrow>
   fst (isTradableMemeToken (with_placeholder_signals w) now s m) = Inr False"
  by (simp add: isTradableMemeToken_def with_placeholder_signals_def placeholder_signal_def
      Let_def)

lemma count_two_of_three:
  "(2 \<le> length (filter (\<lambda>b. b) [a, b, c])) = at_least_two_of_three a b c"
  by (cases a; cases b; cases c) (simp_all add: at_least_two_of_three_def)

lemma load_costBasisData_cases:
  "load_costBasisData w s =
     (case costBasisFile s of
        None \<Rightarrow> (if fs_writable w
                 then (Inr Map.empty, record_event (FsWrite ''{}'') ((record_event FsRead s)\<lparr>costBasisFile := Some ''{}''\<rparr>))
                 else (Inl ''EACCES: permission denied'', record_event FsRead s))
      | Some fileContent \<Rightarrow>
          (case JSON_parse_object w fileContent of
             Inl err \<Rightarrow> (if fs_writable w
                 then (Inr Map.empty, record_event (FsWrite ''{}'') ((record_event FsRead s)\<lparr>costBasisFile := Some ''{}''\<rparr>))
                 else (Inl ''EACCES: permission denied'', record_event FsRead s))
           | Inr costBasisData \<Rightarrow> (Inr costBasisData, record_event FsRead s)))"
  by (simp add: load_costBasisData_def fs_readFile_def fs_writeFile_def JSON_stringify_empty_def
      split: option.splits sum.splits)

lemma JSON_parse_object_empty [simp]: "JSON_parse_object w ''{}'' = Inr Map.empty"
  by (simp add: JSON_parse_object_def)

lemma trackCostBasis_fulfils: "\<exists>v. fst (trackCostBasis w s wa m) = Inr v"
  by (simp add: trackCostBasis_def split: prod.splits sum.splits)

text \<open>The object the lookup reads, as a function of the file and the world.\<close>

lemma get_property_plain:
  "key \<notin> set Object_prototype_keys \<Longrightarrow>
   value_or_zero (get_property obj key) = Number (case obj key of None \<Rightarrow> 0 | Some v \<Rightarrow> v)"
  by (simp add: get_property_def split: option.splits)

lemma trackCostBasis_plain:
  "plain_key wa m \<Longrightarrow> \<exists>b. fst (trackCostBasis w s wa m) = Inr (Number b)"
  by (simp add: trackCostBasis_def plain_key_def get_property_plain split: prod.splits sum.splits)

lemma trackCostBasis_no_record:
  "no_prior_record w s wa m \<Longrightarrow> plain_key wa m \<Longrightarrow>
   fst (trackCostBasis w s wa m) = Inr (Number 0)"
  by (auto simp: trackCostBasis_def no_prior_record_def load_costBasisData_cases
      plain_key_def get_property_plain split: option.splits sum.splits)

lemma trackCostBasis_write_fails:
  assumes "\<not> fs_writable w"
    and "costBasisFile s = None \<or>
         (\<exists>fileContent err. costBasisFile s = Some fileContent \<and>
            JSON_parse_object w fileContent = Inl err)"
  shows "trackCostBasis w s wa m =
           (Inr (Number 0),
            logger Error ''Cost basis tracking error: EACCES: permission denied''
              (record_event FsRead s))"
  using assms by (auto simp: trackCostBasis_def load_costBasisData_cases)

lemma trackCostBasis_creates:
  assumes "fs_writable w"
    and "costBasisFile s = None \<or>
         (\<exists>fileContent err. costBasisFile s = Some fileContent \<and>
            JSON_parse_object w fileContent = Inl err)"
  shows "snd (trackCostBasis w s wa m) =
           record_event (FsWrite ''{}'') ((record_event FsRead s)\<lparr>costBasisFile := Some ''{}''\<rparr>)"
  using assms by (auto simp: trackCostBasis_def load_costBasisData_cases)

text \<open>
  A key is the wallet address, an underscore and the mint. The members of
  \<open>Object.prototype\<close> with an underscore in their names all begin with one, so a key
  whose wallet address is a non-empty base-58 text is plain.
\<close>

lemma prototype_key_shape:
  "k \<in> set Object_prototype_keys \<Longrightarrow> CHR ''_'' \<notin> set k \<or> hd k = CHR ''_''"
  by (auto simp: Object_prototype_keys_def)

lemma base58_no_underscore: "c \<in> set base58_alphabet \<Longrightarrow> c \<noteq> CHR ''_''"
  by (auto simp: base58_alphabet_def)

lemma PublicKey_plain:
  assumes "PublicKey w wa = Inr publicKey"
  shows "plain_key wa m"
proof -
  have ne: "wa \<noteq> []" and all: "list_all (\<lambda>c. c \<in> set base58_alphabet) wa"
    using assms by (auto simp: PublicKey_def split: if_splits)
  from ne obtain c cs where wa: "wa = c # cs" by (cases wa) auto
  then have "c \<in> set base58_alphabet" using all by simp
  then have "hd (wa @ ''_'' @ m) \<noteq> CHR ''_''"
    using wa base58_no_underscore by simp
  moreover have "CHR ''_'' \<in> set (wa @ ''_'' @ m)" by simp
  ultimately show ?thesis
    using prototype_key_shape [of "wa @ ''_'' @ m"] by (auto simp: plain_key_def)
qed

lemma toLowerCase_example: "toLowerCase ''MintA'' = ''minta''"
  by code_simp

text \<open>Every method only adds to the trace.\<close>

lemma try_sources_trace: "prefix (trace s) (trace (snd (try_sources w now m srcs s)))"
proof (induction srcs arbitrary: s)
  case Nil
  then show ?case by simp
next
  case (Cons a srcs)
  have step: "prefix (trace s) (trace (snd (try_sources w now m srcs s')))"
    if "prefix (trace s) (trace s')" for s'
    using that Cons.IH [of s'] by (rule prefix_order.trans)
  show ?case
    by (cases "priceSource w a m") (auto simp: Let_def intro!: step)
qed

lemma getTokenPrice_trace: "prefix (trace s) (trace (snd (getTokenPrice w now s m)))"
  by (simp add: getTokenPrice_def try_sources_trace split: option.splits)

lemma isTradableMemeToken_trace: "prefix (trace s) (trace (snd (isTradableMemeToken w now s m)))"
  by (simp add: isTradableMemeToken_def Let_def split: option.splits sum.splits)

lemma trackCostBasis_trace: "prefix (trace s) (trace (snd (trackCostBasis w s wa m)))"
  by (simp add: trackCostBasis_def load_costBasisData_cases split: option.splits sum.splits)

lemma gain_of_account_trace:
  "prefix (trace s) (trace (snd (gain_of_account w now wa account s)))"
proof -
  obtain p s1 where p: "getTokenPrice w now s (mint account) = (p, s1)"
    by (cases "getTokenPrice w now s (mint account)")
  obtain b s2 where b: "trackCostBasis w s1 wa (mint account) = (b, s2)"
    by (cases "trackCostBasis w s1 wa (mint account)")
  have "prefix (trace s) (trace s1)"
    using getTokenPrice_trace [of s w now "mint account"] p by simp
  moreover have "prefix (trace s1) (trace s2)"
    using trackCostBasis_trace [of s1 w wa "mint account"] b by simp
  ultimately have "prefix (trace s) (trace s2)" by (rule prefix_order.trans)
  then show ?thesis
    using p b \<open>prefix (trace s) (trace s1)\<close>
    by (simp add: gain_of_account_def split: sum.splits)
qed

lemma map_gains_trace:
  "prefix (trace s) (trace (snd (map_gains w now wa accounts s)))"
proof (induction accounts arbitrary: s)
  case Nil
  then show ?case by simp
next
  case (Cons account rest)
  obtain out s1 where h: "gain_of_account w now wa account s = (out, s1)"
    by (cases "gain_of_account w now wa account s")
  have "prefix (trace s) (trace s1)"
    using gain_of_account_trace [of s w now wa account] h by simp
  then have "prefix (trace s) (trace (snd (map_gains w now wa rest s1)))"
    using Cons.IH [of s1] by (rule prefix_order.trans)
  then show ?case using h by (auto split: prod.splits)
qed

lemma filter_tradable_trace:
  "prefix (trace s) (trace (snd (filter_tradable w now accounts s)))"
proof (induction accounts arbitrary: s)
  case Nil
  then show ?case by simp
next
  case (Cons account rest)
  obtain out s1 where h: "isTradableMemeToken w now s (mint account) = (out, s1)"
    by (cases "isTradableMemeToken w now s (mint account)")
  have "prefix (trace s) (trace s1)"
    using isTradableMemeToken_trace [of s w now "mint account"] h by simp
  then have "prefix (trace s) (trace (snd (filter_tradable w now rest s1)))"
    using Cons.IH [of s1] by (rule prefix_order.trans)
  then show ?case using h by (auto split: prod.splits)
qed

text \<open>The \<open>filter\<close> of \<open>calculateGains\<close> keeps every account, eligible or not.\<close>

lemma filter_tradable_keeps_all: "fst (filter_tradable w now accounts s) = accounts"
proof (induction accounts arbitrary: s)
  case Nil
  then show ?case by simp
next
  case (Cons account rest)
  obtain out s1 where h: "isTradableMemeToken w now s (mint account) = (out, s1)"
    by (cases "isTradableMemeToken w now s (mint account)")
  obtain kept s2 where t: "filter_tradable w now rest s1 = (kept, s2)"
    by (cases "filter_tradable w now rest s1")
  have "kept = rest" using Cons.IH [of s1] t by simp
  then show ?case using h t by simp
qed

text \<open>
  What a method answers does not depend on what earlier calls of the same request left
  behind: a price depends on the price cache only, and a call caches nothing but the
  price it would resolve again; a cost basis depends on the file only, and a call writes
  nothing but an empty object where it read one.
\<close>

lemma try_sources_value:
  "fst (try_sources w now m srcs s) = fst (try_sources w now' m srcs s')"
proof (induction srcs arbitrary: s s')
  case Nil
  then show ?case by simp
next
  case (Cons a srcs)
  show ?case
  proof (cases "priceSource w a m")
    case (Inl err)
    then show ?thesis
      using Cons.IH by (simp add: Let_def)
  next
    case (Inr price)
    then show ?thesis
      using Cons.IH by (simp add: Let_def)
  qed
qed

lemma try_sources_effect:
  "costBasisFile (snd (try_sources w now m srcs s)) = costBasisFile s \<and>
   (priceCache (snd (try_sources w now m srcs s)) = priceCache s \<or>
    (\<exists>p. fst (try_sources w now m srcs s) = Inr p \<and> 0 < p \<and>
         priceCache (snd (try_sources w now m srcs s)) = cache_set (priceCache s) now m p))"
proof (induction srcs arbitrary: s)
  case Nil
  then show ?case by simp
next
  case (Cons a srcs)
  show ?case
  proof (cases "priceSource w a m")
    case (Inl err)
    then show ?thesis
      using Cons.IH [of "logger Warn (''Price fetch error: '' @ err) (record_event (HttpGet a m) s)"]
      by (simp add: Let_def)
  next
    case (Inr price)
    then show ?thesis
      using Cons.IH [of "record_event (HttpGet a m) s"]
      by (simp add: Let_def)
  qed
qed

lemma getTokenPrice_value_cong:
  "priceCache s' = priceCache s \<Longrightarrow>
   fst (getTokenPrice w now s' m) = fst (getTokenPrice w now s m)"
  using try_sources_value [of w now m priceSources s' now s]
  by (simp add: getTokenPrice_def split: option.splits)

lemma getTokenPrice_costBasisFile:
  "costBasisFile (snd (getTokenPrice w now s m)) = costBasisFile s"
  using try_sources_effect [of w now m priceSources s]
  by (simp add: getTokenPrice_def split: option.splits)

lemma cache_get_set_other:
  "k' \<noteq> k \<Longrightarrow> cache_get (cache_set c now k v) later k' = cache_get c later k'"
  by (simp add: cache_get_def cache_set_def)

lemma cache_get_set_now: "cache_get (cache_set c now k v) now k = Some v"
  by (simp add: cache_get_def cache_set_def)

lemma getTokenPrice_stable:
  "fst (getTokenPrice w now (snd (getTokenPrice w now s m0)) m) = fst (getTokenPrice w now s m)"
proof -
  let ?fresh = "try_sources w now m0 priceSources s"
  have "snd (getTokenPrice w now s m0) = s \<or> getTokenPrice w now s m0 = ?fresh"
    by (cases "cache_get (priceCache s) now m0") (simp_all add: getTokenPrice_def)
  then consider (hit) "snd (getTokenPrice w now s m0) = s"
    | (searched) "getTokenPrice w now s m0 = ?fresh"
    by blast
  then show ?thesis
  proof cases
    case hit
    then show ?thesis by simp
  next
    case searched
    consider (same) "priceCache (snd ?fresh) = priceCache s"
      | (cached) p where "fst ?fresh = Inr p" "0 < p"
          "priceCache (snd ?fresh) = cache_set (priceCache s) now m0 p"
      using try_sources_effect [of w now m0 priceSources s] by blast
    then show ?thesis
    proof cases
      case same
      then show ?thesis
        using searched getTokenPrice_value_cong [of "snd ?fresh" s w now m] by simp
    next
      case cached
      show ?thesis
      proof (cases "m = m0")
        case True
        have "fst (getTokenPrice w now (snd ?fresh) m0) = Inr p"
          using cached by (simp add: getTokenPrice_def cache_get_set_now)
        then show ?thesis using True searched cached by simp
      next
        case False
        have "cache_get (priceCache (snd ?fresh)) now m = cache_get (priceCache s) now m"
          using cached(3) False by (simp add: cache_get_set_other)
        then have "fst (getTokenPrice w now (snd ?fresh) m) = fst (getTokenPrice w now s m)"
          using try_sources_value [of w now m priceSources "snd ?fresh" now s]
          by (simp add: getTokenPrice_def split: option.splits)
        then show ?thesis using searched by simp
      qed
    qed
  qed
qed

lemma trackCostBasis_value_cong:
  "costBasisFile s' = costBasisFile s \<Longrightarrow>
   fst (trackCostBasis w s' wa m) = fst (trackCostBasis w s wa m)"
  by (simp add: trackCostBasis_def load_costBasisData_cases split: option.splits sum.splits)

lemma trackCostBasis_priceCache:
  "priceCache (snd (trackCostBasis w s wa m)) = priceCache s"
  by (simp add: trackCostBasis_def load_costBasisData_cases split: option.splits sum.splits)

lemma trackCostBasis_stable:
  "fst (trackCostBasis w (snd (trackCostBasis w s wa0 m0)) wa m) = fst (trackCostBasis w s wa m)"
  by (simp add: trackCostBasis_def load_costBasisData_cases split: option.splits sum.splits)

lemma isTradableMemeToken_frame:
  "priceCache (snd (isTradableMemeToken w now s m)) = priceCache s \<and>
   costBasisFile (snd (isTradableMemeToken w now s m)) = costBasisFile s"
  by (simp add: isTradableMemeToken_def Let_def split: option.splits sum.splits)

lemma filter_tradable_frame:
  "priceCache (snd (filter_tradable w now accounts s)) = priceCache s \<and>
   costBasisFile (snd (filter_tradable w now accounts s)) = costBasisFile s"
proof (induction accounts arbitrary: s)
  case Nil
  then show ?case by simp
next
  case (Cons account rest)
  obtain out s1 where h: "isTradableMemeToken w now s (mint account) = (out, s1)"
    by (cases "isTradableMemeToken w now s (mint account)")
  obtain kept s2 where t: "filter_tradable w now rest s1 = (kept, s2)"
    by (cases "filter_tradable w now rest s1")
  show ?case
    using isTradableMemeToken_frame [of w now s "mint account"] Cons.IH [of s1] h t by simp
qed

text \<open>
  The \<open>map\<close> callback, started in a state that answers as the state \<open>s\<close> does, builds the
  record of the spec for its account and leaves a state that still answers as \<open>s\<close> does.
\<close>

lemma gain_of_account_as:
  assumes price: "\<And>m. fst (getTokenPrice w now s' m) = fst (getTokenPrice w now s m)"
    and basis: "\<And>wa m. fst (trackCostBasis w s' wa m) = fst (trackCostBasis w s wa m)"
  shows "fst (gain_of_account w now wa account s') = Inr (gain_result_of w now s wa account)"
    and "fst (getTokenPrice w now (snd (gain_of_account w now wa account s')) m)
           = fst (getTokenPrice w now s m)"
    and "fst (trackCostBasis w (snd (gain_of_account w now wa account s')) wa' m)
           = fst (trackCostBasis w s wa' m)"
proof -
  obtain p s1 where p: "getTokenPrice w now s' (mint account) = (Inr p, s1)"
    using getTokenPrice_fulfils [of w now s' "mint account"]
    by (cases "getTokenPrice w now s' (mint account)") auto
  obtain b s2 where b: "trackCostBasis w s1 wa (mint account) = (Inr b, s2)"
    using trackCostBasis_fulfils [of w s1 wa "mint account"]
    by (cases "trackCostBasis w s1 wa (mint account)") auto
  have s1: "s1 = snd (getTokenPrice w now s' (mint account))" using p by simp
  have s2: "s2 = snd (trackCostBasis w s1 wa (mint account))" using b by simp
  have file1: "costBasisFile s1 = costBasisFile s'"
    using s1 getTokenPrice_costBasisFile by simp
  have price1: "fst (getTokenPrice w now s1 m) = fst (getTokenPrice w now s m)" for m
    using s1 getTokenPrice_stable [of w now s' "mint account" m] price by simp
  have basis1: "fst (trackCostBasis w s1 wa' m) = fst (trackCostBasis w s wa' m)" for wa' m
    using trackCostBasis_value_cong [OF file1] basis by simp
  have cache2: "priceCache s2 = priceCache s1"
    using s2 trackCostBasis_priceCache by simp
  have "fst (getTokenPrice w now s (mint account)) = Inr p"
    using p price [of "mint account"] by (metis fst_conv)
  then have p_eq: "resolved_price w now s (mint account) = p"
    by (simp add: resolved_price_def)
  have "fst (trackCostBasis w s wa (mint account)) = Inr b"
    using b basis1 [of wa "mint account"] by (metis fst_conv)
  then have b_eq: "recorded_basis w s wa (mint account) = b"
    by (simp add: recorded_basis_def)
  have out: "gain_of_account w now wa account s'
      = (Inr (gain_result_of w now s wa account), s2)"
    using p b p_eq b_eq by (simp add: gain_of_account_def gain_result_of_def)
  show "fst (gain_of_account w now wa account s') = Inr (gain_result_of w now s wa account)"
    using out by simp
  show "fst (getTokenPrice w now (snd (gain_of_account w now wa account s')) m)
           = fst (getTokenPrice w now s m)"
    using out getTokenPrice_value_cong [OF cache2] price1 by simp
  show "fst (trackCostBasis w (snd (gain_of_account w now wa account s')) wa' m)
           = fst (trackCostBasis w s wa' m)"
    using out s2 trackCostBasis_stable [of w s1 wa "mint account" wa' m] basis1 by simp
qed

lemma map_gains_as:
  assumes "\<And>m. fst (getTokenPrice w now s' m) = fst (getTokenPrice w now s m)"
    and "\<And>wa m. fst (trackCostBasis w s' wa m) = fst (trackCostBasis w s wa m)"
  shows "fst (map_gains w now wa accounts s')
           = map (\<lambda>account. Inr (gain_result_of w now s wa account)) accounts"
  using assms
proof (induction accounts arbitrary: s')
  case Nil
  then show ?case by simp
next
  case (Cons account rest)
  obtain out s1 where h: "gain_of_account w now wa account s' = (out, s1)"
    by (cases "gain_of_account w now wa account s'")
  obtain outs s2 where t: "map_gains w now wa rest s1 = (outs, s2)"
    by (cases "map_gains w now wa rest s1")
  have out: "out = Inr (gain_result_of w now s wa account)"
    using gain_of_account_as(1) [of w now s' s wa account] Cons.prems h by simp
  have "fst (map_gains w now wa rest s1)
          = map (\<lambda>account. Inr (gain_result_of w now s wa account)) rest"
  proof (rule Cons.IH)
    show "fst (getTokenPrice w now s1 m) = fst (getTokenPrice w now s m)" for m
      using gain_of_account_as(2) [of w now s' s wa account m] Cons.prems h by simp
    show "fst (trackCostBasis w s1 wa' m) = fst (trackCostBasis w s wa' m)" for wa' m
      using gain_of_account_as(3) [of w now s' s wa account wa' m] Cons.prems h by simp
  qed
  then show ?case using h t out by simp
qed

lemma Promise_all_fulfilled: "Promise_all (map (\<lambda>x. Inr (f x)) xs) = Inr (map f xs)"
  by (induction xs) simp_all

text \<open>
  What a call with a valid address and fetched holdings returns: the records of the spec
  for the accounts the \<open>filter\<close> kept, which are all of them, without those whose total
  value is not above zero.
\<close>

lemma calculateGains_value:
  assumes valid: "PublicKey w walletAddress = Inr publicKey"
    and fetched: "getParsedTokenAccountsByOwner w publicKey = Inr tokenAccounts"
  shows "fst (calculateGains w now s walletAddress)
           = Inr (filter (\<lambda>result. 0 < totalValue result)
                   (map (gain_result_of w now s walletAddress) tokenAccounts))"
proof -
  let ?s2 = "record_event (RpcTokenAccounts publicKey) s"
  obtain tradable s3 where f: "filter_tradable w now tokenAccounts ?s2 = (tradable, s3)"
    by (cases "filter_tradable w now tokenAccounts ?s2")
  obtain outs s4 where g: "map_gains w now walletAddress tradable s3 = (outs, s4)"
    by (cases "map_gains w now walletAddress tradable s3")
  have kept: "tradable = tokenAccounts"
    using filter_tradable_keeps_all [of w now tokenAccounts ?s2] f by simp
  have frame: "priceCache s3 = priceCache s" "costBasisFile s3 = costBasisFile s"
    using filter_tradable_frame [of w now tokenAccounts ?s2] f by simp_all
  have "fst (map_gains w now walletAddress tradable s3)
          = map (\<lambda>account. Inr (gain_result_of w now s walletAddress account)) tradable"
  proof (rule map_gains_as)
    show "fst (getTokenPrice w now s3 m) = fst (getTokenPrice w now s m)" for m
      using frame(1) by (rule getTokenPrice_value_cong)
    show "fst (trackCostBasis w s3 wa m) = fst (trackCostBasis w s wa m)" for wa m
      using frame(2) by (rule trackCostBasis_value_cong)
  qed
  then have "Promise_all outs = Inr (map (gain_result_of w now s walletAddress) tokenAccounts)"
    using g kept Promise_all_fulfilled [of "gain_result_of w now s walletAddress" tokenAccounts]
    by simp
  then show ?thesis
    using valid fetched f g
    by (simp add: calculateGains_def validateWalletAddress_def Let_def)
qed

text \<open>
  A call of \<open>calculateGains\<close> always shows in the trace: it logs its outcome at the
  end, whatever it was.
\<close>

lemma calculateGains_leaves_mark:
  "length (trace s) < length (trace (snd (calculateGains w now s walletAddress)))"
proof (cases "PublicKey w walletAddress")
  case (Inl err)
  then show ?thesis
    by (simp add: calculateGains_def validateWalletAddress_def escalate_def)
next
  case (Inr publicKey)
  let ?s2 = "record_event (RpcTokenAccounts publicKey) s"
  show ?thesis
  proof (cases "getParsedTokenAccountsByOwner w publicKey")
    case (Inl err)
    then show ?thesis
      using Inr by (simp add: calculateGains_def validateWalletAddress_def escalate_def Let_def)
  next
    case fetched: (Inr tokenAccounts)
    obtain tradable s3 where f: "filter_tradable w now tokenAccounts ?s2 = (tradable, s3)"
      by (cases "filter_tradable w now tokenAccounts ?s2")
    obtain outs s4 where g: "map_gains w now walletAddress tradable s3 = (outs, s4)"
      by (cases "map_gains w now walletAddress tradable s3")
    have "prefix (trace ?s2) (trace s3)"
      using filter_tradable_trace [of ?s2 w now tokenAccounts] f by simp
    moreover have "prefix (trace s3) (trace s4)"
      using map_gains_trace [of s3 w now walletAddress tradable] g by simp
    ultimately have "prefix (trace ?s2) (trace s4)" by (rule prefix_order.trans)
    then have "length (trace ?s2) \<le> length (trace s4)" by (rule prefix_length_le)
    then have "length (trace s) < length (trace s4)" by simp
    then show ?thesis
      using Inr fetched f g
      by (simp add: calculateGains_def validateWalletAddress_def escalate_def Let_def
          split: sum.splits)
  qed
qed

text \<open>The evaluation of the two-account wallet, with the signals of the world and with
  the placeholder signals of the source.\<close>

lemma demo_gains:
  "fst (calculateGains demo_world 1000 demo_tracker demo_wallet) =
     Inr [\<lparr>token = ''MintA'', currentPrice = 2, amount = 10, costBasis = Number 5,
           totalValue = 20, unrealizedGain = Number 15\<rparr>,
          \<lparr>token = ''MintB'', currentPrice = 3, amount = 1, costBasis = Number 0,
           totalValue = 3, unrealizedGain = Number 3\<rparr>]"
  by (simp add: calculateGains_def demo_defs model_defs Let_def gain_of_account_def)

lemma placeholder_gains:
  "fst (calculateGains (with_placeholder_signals demo_world) 1000 demo_tracker demo_wallet) =
     Inr [\<lparr>token = ''MintA'', currentPrice = 2, amount = 10, costBasis = Number 5,
           totalValue = 20, unrealizedGain = Number 15\<rparr>,
          \<lparr>token = ''MintB'', currentPrice = 3, amount = 1, costBasis = Number 0,
           totalValue = 3, unrealizedGain = Number 3\<rparr>]"
  by (simp add: calculateGains_def with_placeholder_signals_def placeholder_signal_def
      demo_defs model_defs Let_def gain_of_account_def)

text \<open>The same wallet where \<open>MintB\<close> has no price.\<close>

lemma unlisted_gains:
  "fst (calculateGains unlisted_world 1000 demo_tracker demo_wallet) = Inr [demo_gain_A]"
  by (simp add: calculateGains_def demo_defs model_defs Let_def gain_of_account_def
      demo_gain_A_def)

lemma calculateGains_fulfilled:
  assumes "fst (calculateGains w now s walletAddress) = Inr results"
  shows "\<exists>publicKey tokenAccounts.
           PublicKey w walletAddress = Inr publicKey \<and>
           getParsedTokenAccountsByOwner w publicKey = Inr tokenAccounts"
proof (cases "PublicKey w walletAddress")
  case (Inl err)
  then show ?thesis
    using assms by (simp add: calculateGains_def validateWalletAddress_def escalate_def)
next
  case (Inr publicKey)
  then show ?thesis
    using assms
    by (cases "getParsedTokenAccountsByOwner w publicKey")
      (simp_all add: calculateGains_def validateWalletAddress_def escalate_def Let_def)
qed



section \<open>The claims\<close>

text \<open>
  C1 (the code departs from it). The claim: an ineligible holding is left out of the
  result, so that a wallet holding the eligible \<open>MintA\<close> and the ineligible \<open>MintB\<close>
  yields one result. In the code the callback given to \<open>filter\<close> is \<open>async\<close>;
  \<open>filter\<close> sees a promise, which is truthy, and keeps every account. Evaluated on
  that wallet, \<open>calculateGains\<close> returns two results, the second for \<open>MintB\<close>. With the
  placeholder signals of the source, under which no mint is eligible, it returns the same
  two results.
\<close>

theorem calculateGains_keeps_ineligible:
  "fst (isTradableMemeToken demo_world 1000 demo_tracker ''MintA'') = Inr True \<and>
   fst (isTradableMemeToken demo_world 1000 demo_tracker ''MintB'') = Inr False \<and>
   fst (calculateGains demo_world 1000 demo_tracker demo_wallet) =
     Inr [\<lparr>token = ''MintA'', currentPrice = 2, amount = 10, costBasis = Number 5,
           totalValue = 20, unrealizedGain = Number 15\<rparr>,
          \<lparr>token = ''MintB'', currentPrice = 3, amount = 1, costBasis = Number 0,
           totalValue = 3, unrealizedGain = Number 3\<rparr>] \<and>
   fst (isTradableMemeToken (with_placeholder_signals demo_world) 1000 demo_tracker ''MintA'')
     = Inr False \<and>
   fst (isTradableMemeToken (with_placeholder_signals demo_world) 1000 demo_tracker ''MintB'')
     = Inr False \<and>
   fst (calculateGains (with_placeholder_signals demo_world) 1000 demo_tracker demo_wallet) =
     Inr [\<lparr>token = ''MintA'', currentPrice = 2, amount = 10, costBasis = Number 5,
           totalValue = 20, unrealizedGain = Number 15\<rparr>,
          \<lparr>token = ''MintB'', currentPrice = 3, amount = 1, costBasis = Number 0,
           totalValue = 3, unrealizedGain = Number 3\<rparr>]"
proof -
  have "fst (isTradableMemeToken demo_world 1000 demo_tracker ''MintA'') = Inr True"
    by (simp add: demo_defs model_defs)
  moreover have "fst (isTradableMemeToken demo_world 1000 demo_tracker ''MintB'') = Inr False"
    by (simp add: demo_defs model_defs)
  moreover have "cache_get (tokenMetadataCache demo_tracker) 1000 m = None" for m
    by (simp add: demo_defs model_defs)
  ultimately show ?thesis
    using demo_gains placeholder_gains placeholder_never_tradable by simp
qed

text \<open>
  C2. For a mint that is not in the price cache, the sources are requested in the order
  CoinGecko, DexScreener, Raydium; the sources before the first one with a price above
  zero have each thrown or returned a price that is not above zero, and no source after
  it is requested. That price is returned and cached, and a call at any later time inside
  the TTL window returns it and leaves the tracker, its trace included, as it was, in
  whatever world the second call runs.
\<close>

theorem getTokenPrice_fallback:
  assumes miss: "cache_get (priceCache s) now m = None"
    and order: "[CoinGecko, DexScreener, Raydium] = pre @ src # post"
    and skip: "\<forall>x\<in>set pre. skipped (priceSource w x m)"
    and hit: "priceSource w src m = Inr p" and pos: "0 < p"
    and ttl: "within_ttl (priceCache s) now later"
  shows "fst (getTokenPrice w now s m) = Inr p \<and>
         sources_called (trace (snd (getTokenPrice w now s m)))
           = sources_called (trace s) @ pre @ [src] \<and>
         cache_get (priceCache (snd (getTokenPrice w now s m))) later m = Some p \<and>
         getTokenPrice w' later (snd (getTokenPrice w now s m)) m
           = (Inr p, snd (getTokenPrice w now s m))"
proof -
  let ?r = "try_sources w now m (pre @ src # post) s"
  have eq: "getTokenPrice w now s m = ?r"
    using miss order by (simp add: getTokenPrice_def priceSources_def)
  have r: "fst ?r = Inr p" "priceCache (snd ?r) = cache_set (priceCache s) now m p"
    "sources_called (trace (snd ?r)) = sources_called (trace s) @ pre @ [src]"
    using try_sources_hit [OF skip hit pos] by blast+
  have cached: "cache_get (priceCache (snd ?r)) later m = Some p"
    using r(2) ttl by (simp add: cache_get_set)
  have again: "getTokenPrice w' later (snd ?r) m = (Inr p, snd ?r)"
    using cached pos by (simp add: getTokenPrice_def)
  show ?thesis using eq r cached again by simp
qed

text \<open>
  Witness for C2: CoinGecko fails, DexScreener quotes 2.
\<close>

theorem getTokenPrice_fallback_witness:
  "cache_get (priceCache demo_tracker) 1000 ''MintA'' = None \<and>
   skipped (priceSource demo_world CoinGecko ''MintA'') \<and>
   priceSource demo_world DexScreener ''MintA'' = Inr 2 \<and>
   within_ttl (priceCache demo_tracker) 1000 200000 \<and>
   fst (getTokenPrice demo_world 1000 demo_tracker ''MintA'') = Inr 2 \<and>
   sources_called (trace (snd (getTokenPrice demo_world 1000 demo_tracker ''MintA'')))
     = [CoinGecko, DexScreener] \<and>
   cache_get (priceCache (snd (getTokenPrice demo_world 1000 demo_tracker ''MintA''))) 200000 ''MintA''
     = Some 2 \<and>
   getTokenPrice dead_world 200000 (snd (getTokenPrice demo_world 1000 demo_tracker ''MintA'')) ''MintA''
     = (Inr 2, snd (getTokenPrice demo_world 1000 demo_tracker ''MintA''))"
proof -
  have miss: "cache_get (priceCache demo_tracker) 1000 ''MintA'' = None"
    by (simp add: demo_defs model_defs)
  have order: "[CoinGecko, DexScreener, Raydium] = [CoinGecko] @ DexScreener # [Raydium]"
    by simp
  have skip: "\<forall>x\<in>set [CoinGecko]. skipped (priceSource demo_world x ''MintA'')"
    by (simp add: demo_defs model_defs)
  have hit: "priceSource demo_world DexScreener ''MintA'' = Inr 2"
    by (simp add: demo_defs model_defs)
  have ttl: "within_ttl (priceCache demo_tracker) 1000 200000"
    by (simp add: demo_defs model_defs)
  have start: "sources_called (trace demo_tracker) = []"
    by (simp add: demo_defs)
  show ?thesis
    using getTokenPrice_fallback [OF miss order skip hit _ ttl, of dead_world] miss skip hit ttl start
    by simp
qed

text \<open>
  C3. For a mint that is not in the price cache, when each of the three sources throws or
  returns a price that is not above zero, the method fulfils with exactly \<open>0\<close>, after
  requesting all three, and the price cache is left as it was.
\<close>

theorem getTokenPrice_all_fail:
  assumes miss: "cache_get (priceCache s) now m = None"
    and fail: "\<forall>src\<in>set [CoinGecko, DexScreener, Raydium]. skipped (priceSource w src m)"
  shows "fst (getTokenPrice w now s m) = Inr 0 \<and>
         priceCache (snd (getTokenPrice w now s m)) = priceCache s \<and>
         sources_called (trace (snd (getTokenPrice w now s m)))
           = sources_called (trace s) @ [CoinGecko, DexScreener, Raydium]"
proof -
  have "getTokenPrice w now s m = try_sources w now m [CoinGecko, DexScreener, Raydium] s"
    using miss by (simp add: getTokenPrice_def priceSources_def)
  then show ?thesis
    using try_sources_all_skipped [OF fail, of now s] by simp
qed

text \<open>
  Witness for C3: an HTTP error, a \<open>null\<close> pair list and a missing entry.
\<close>

theorem getTokenPrice_all_fail_witness:
  "cache_get (priceCache demo_tracker) 1000 ''MintA'' = None \<and>
   skipped (priceSource dead_world CoinGecko ''MintA'') \<and>
   skipped (priceSource dead_world DexScreener ''MintA'') \<and>
   skipped (priceSource dead_world Raydium ''MintA'') \<and>
   fst (getTokenPrice dead_world 1000 demo_tracker ''MintA'') = Inr 0 \<and>
   priceCache (snd (getTokenPrice dead_world 1000 demo_tracker ''MintA'')) = priceCache demo_tracker"
proof -
  have miss: "cache_get (priceCache demo_tracker) 1000 ''MintA'' = None"
    by (simp add: demo_defs model_defs)
  have fail: "\<forall>src\<in>set [CoinGecko, DexScreener, Raydium]. skipped (priceSource dead_world src ''MintA'')"
    by (simp add: demo_defs model_defs)
  show ?thesis
    using getTokenPrice_all_fail [OF miss fail] miss fail by simp
qed

text \<open>
  C4. For a mint that is not in the metadata cache and three signals that return
  booleans, the result is true exactly when at least two of them are true; the result is
  cached, and a call at any later time inside the TTL window returns it and leaves the
  tracker, its trace included, as it was: no signal is evaluated again.
\<close>

theorem isTradableMemeToken_two_of_three:
  assumes miss: "cache_get (tokenMetadataCache s) now m = None"
    and vol: "checkTokenVolume w m = Inr a"
    and soc: "checkSocialTraction w m = Inr b"
    and age: "checkTokenAge w m = Inr c"
    and ttl: "within_ttl (tokenMetadataCache s) now later"
  shows "fst (isTradableMemeToken w now s m) = Inr (at_least_two_of_three a b c) \<and>
         signals_evaluated (trace (snd (isTradableMemeToken w now s m)))
           = signals_evaluated (trace s) @ [(Volume, m), (SocialTraction, m), (TokenAge, m)] \<and>
         cache_get (tokenMetadataCache (snd (isTradableMemeToken w now s m))) later m
           = Some (at_least_two_of_three a b c) \<and>
         isTradableMemeToken w' later (snd (isTradableMemeToken w now s m)) m
           = (Inr (at_least_two_of_three a b c), snd (isTradableMemeToken w now s m))"
proof -
  let ?s1 = "record_event (SignalEvaluated TokenAge m)
               (record_event (SignalEvaluated SocialTraction m)
                 (record_event (SignalEvaluated Volume m) s))"
  let ?t = "at_least_two_of_three a b c"
  let ?s2 = "?s1\<lparr>tokenMetadataCache := cache_set (tokenMetadataCache ?s1) now m ?t\<rparr>"
  have run: "isTradableMemeToken w now s m = (Inr ?t, ?s2)"
    using miss vol soc age count_two_of_three [of a b c]
    by (simp add: isTradableMemeToken_def Let_def)
  have cached: "cache_get (tokenMetadataCache ?s2) later m = Some ?t"
    using ttl by (simp add: cache_get_set)
  have again: "isTradableMemeToken w' later ?s2 m = (Inr ?t, ?s2)"
    using cached by (simp add: isTradableMemeToken_def)
  have evaluated: "signals_evaluated (trace ?s2)
      = signals_evaluated (trace s) @ [(Volume, m), (SocialTraction, m), (TokenAge, m)]"
    by (simp add: signals_evaluated_append)
  show ?thesis using run cached again evaluated by simp
qed

text \<open>
  Witness for C4: volume and social traction true, age false.
\<close>

theorem isTradableMemeToken_two_of_three_witness:
  "cache_get (tokenMetadataCache demo_tracker) 1000 ''MintA'' = None \<and>
   checkTokenVolume demo_world ''MintA'' = Inr True \<and>
   checkSocialTraction demo_world ''MintA'' = Inr True \<and>
   checkTokenAge demo_world ''MintA'' = Inr False \<and>
   within_ttl (tokenMetadataCache demo_tracker) 1000 3000000 \<and>
   fst (isTradableMemeToken demo_world 1000 demo_tracker ''MintA'') = Inr True \<and>
   cache_get (tokenMetadataCache (snd (isTradableMemeToken demo_world 1000 demo_tracker ''MintA'')))
     3000000 ''MintA'' = Some True \<and>
   isTradableMemeToken outage_world 3000000
       (snd (isTradableMemeToken demo_world 1000 demo_tracker ''MintA'')) ''MintA''
     = (Inr True, snd (isTradableMemeToken demo_world 1000 demo_tracker ''MintA''))"
proof -
  have miss: "cache_get (tokenMetadataCache demo_tracker) 1000 ''MintA'' = None"
    by (simp add: demo_defs model_defs)
  have vol: "checkTokenVolume demo_world ''MintA'' = Inr True"
    and soc: "checkSocialTraction demo_world ''MintA'' = Inr True"
    and age: "checkTokenAge demo_world ''MintA'' = Inr False"
    by (simp_all add: demo_defs)
  have ttl: "within_ttl (tokenMetadataCache demo_tracker) 1000 3000000"
    by (simp add: demo_defs model_defs)
  show ?thesis
    using isTradableMemeToken_two_of_three [OF miss vol soc age ttl, of outage_world] miss vol soc age ttl
    by (simp add: at_least_two_of_three_def)
qed

text \<open>
  C5 as amended. The claim: when one signal throws and the other two are true, the
  thrown signal counts as false and the result is true. The code has one \<open>catch\<close>
  around the whole method: when any signal throws, on a cache miss, the result is
  \<open>false\<close> whatever the other signals say, the metadata cache is not written, and after
  the three evaluations one warning is logged, which quotes the message of a signal that
  threw.
\<close>

theorem isTradableMemeToken_signal_throws:
  assumes miss: "cache_get (tokenMetadataCache s) now m = None"
    and throws: "checkTokenVolume w m = Inl err \<or> checkSocialTraction w m = Inl err
                 \<or> checkTokenAge w m = Inl err"
  shows "fst (isTradableMemeToken w now s m) = Inr False \<and>
         tokenMetadataCache (snd (isTradableMemeToken w now s m)) = tokenMetadataCache s \<and>
         (\<exists>thrown.
            (checkTokenVolume w m = Inl thrown \<or> checkSocialTraction w m = Inl thrown
             \<or> checkTokenAge w m = Inl thrown) \<and>
            trace (snd (isTradableMemeToken w now s m))
              = trace s @ [SignalEvaluated Volume m, SignalEvaluated SocialTraction m,
                           SignalEvaluated TokenAge m,
                           Logged Warn (''Token detection error: '' @ thrown)])"
proof -
  obtain thrown where rejected:
      "Promise_all [checkTokenVolume w m, checkSocialTraction w m, checkTokenAge w m]
         = Inl thrown"
    and one_of: "checkTokenVolume w m = Inl thrown \<or> checkSocialTraction w m = Inl thrown
                 \<or> checkTokenAge w m = Inl thrown"
    using throws
    by (cases "checkTokenVolume w m"; cases "checkSocialTraction w m"; cases "checkTokenAge w m")
      auto
  have run: "isTradableMemeToken w now s m =
      (Inr False,
       logger Warn (''Token detection error: '' @ thrown)
         (record_event (SignalEvaluated TokenAge m)
           (record_event (SignalEvaluated SocialTraction m)
             (record_event (SignalEvaluated Volume m) s))))"
    using miss rejected by (simp add: isTradableMemeToken_def Let_def)
  show ?thesis
    using one_of by (auto simp: run)
qed

text \<open>
  Counterexample to C5 as stated: two signals true, the third throws, the result is
  \<open>false\<close>.
\<close>

theorem isTradableMemeToken_degrade_counterexample:
  "cache_get (tokenMetadataCache demo_tracker) 1000 ''MintA'' = None \<and>
   checkTokenVolume outage_world ''MintA'' = Inr True \<and>
   checkSocialTraction outage_world ''MintA'' = Inr True \<and>
   checkTokenAge outage_world ''MintA'' = Inl ''age lookup timed out'' \<and>
   fst (isTradableMemeToken outage_world 1000 demo_tracker ''MintA'') = Inr False"
  by (simp add: demo_defs model_defs)

text \<open>
  Witness for C5 as amended, at the same input: the warning quotes the age signal.
\<close>

theorem isTradableMemeToken_signal_throws_witness:
  "cache_get (tokenMetadataCache demo_tracker) 1000 ''MintA'' = None \<and>
   checkTokenAge outage_world ''MintA'' = Inl ''age lookup timed out'' \<and>
   fst (isTradableMemeToken outage_world 1000 demo_tracker ''MintA'') = Inr False \<and>
   tokenMetadataCache (snd (isTradableMemeToken outage_world 1000 demo_tracker ''MintA''))
     = tokenMetadataCache demo_tracker \<and>
   trace (snd (isTradableMemeToken outage_world 1000 demo_tracker ''MintA''))
     = [SignalEvaluated Volume ''MintA'', SignalEvaluated SocialTraction ''MintA'',
        SignalEvaluated TokenAge ''MintA'',
        Logged Warn ''Token detection error: age lookup timed out'']"
proof -
  have miss: "cache_get (tokenMetadataCache demo_tracker) 1000 ''MintA'' = None"
    by (simp add: demo_defs model_defs)
  have age: "checkTokenAge outage_world ''MintA'' = Inl ''age lookup timed out''"
    and vol: "checkTokenVolume outage_world ''MintA'' = Inr True"
    and soc: "checkSocialTraction outage_world ''MintA'' = Inr True"
    by (simp_all add: demo_defs)
  have fresh: "trace demo_tracker = []"
    by (simp add: demo_defs)
  show ?thesis
    using isTradableMemeToken_signal_throws [OF miss, of outage_world "''age lookup timed out''"]
      miss age vol soc fresh
    by auto
qed

text \<open>
  C6 as amended. The claim: a pair without a prior record gives exactly \<open>0\<close>, and a
  missing file is initialised empty by the first access. In the code the second part
  rests on the write: for a pair without a prior record whose key is plain, the method
  fulfils with exactly \<open>0\<close>; a missing file holds an empty object afterwards when it
  can be written, and when the write fails the file stays missing and the failure is
  logged as an error.
\<close>

theorem trackCostBasis_absent:
  assumes absent: "no_prior_record w s walletAddress m"
    and plain: "plain_key walletAddress m"
  shows "fst (trackCostBasis w s walletAddress m) = Inr (Number 0) \<and>
         (costBasisFile s = None \<and> fs_writable w \<longrightarrow>
            costBasisFile (snd (trackCostBasis w s walletAddress m)) = Some ''{}'') \<and>
         (costBasisFile s = None \<and> \<not> fs_writable w \<longrightarrow>
            costBasisFile (snd (trackCostBasis w s walletAddress m)) = None \<and>
            (\<exists>err. last (trace (snd (trackCostBasis w s walletAddress m)))
                     = Logged Error (''Cost basis tracking error: '' @ err)))"
proof -
  have zero: "fst (trackCostBasis w s walletAddress m) = Inr (Number 0)"
    using absent plain by (rule trackCostBasis_no_record)
  have created: "costBasisFile (snd (trackCostBasis w s walletAddress m)) = Some ''{}''"
    if "costBasisFile s = None" "fs_writable w"
    using that trackCostBasis_creates [of w s walletAddress m] by simp
  have failed: "costBasisFile (snd (trackCostBasis w s walletAddress m)) = None \<and>
      last (trace (snd (trackCostBasis w s walletAddress m)))
        = Logged Error (''Cost basis tracking error: '' @ ''EACCES: permission denied'')"
    if "costBasisFile s = None" "\<not> fs_writable w"
    using that trackCostBasis_write_fails [of w s walletAddress m] by simp
  show ?thesis
    using zero created failed by blast
qed

text \<open>
  Counterexample to C6 as stated: on a read-only location the missing file is still
  missing after the first access; and the pair of the empty wallet address and the mint
  \<open>_proto__\<close>, which has no record, gives the inherited member \<open>__proto__\<close>, not \<open>0\<close>.
\<close>

theorem trackCostBasis_absent_counterexample:
  "no_prior_record readonly_world (createTracker None) demo_wallet ''MintA'' \<and>
   costBasisFile (createTracker None) = None \<and>
   costBasisFile (snd (trackCostBasis readonly_world (createTracker None) demo_wallet ''MintA''))
     = None \<and>
   no_prior_record demo_world (createTracker None) [] ''_proto__'' \<and>
   fst (trackCostBasis demo_world (createTracker None) [] ''_proto__'')
     = Inr (Inherited ''__proto__'')"
  by (simp add: demo_defs model_defs)

text \<open>
  Witness for C6 as amended: a tracker without a cost-basis file, on a writable and on a
  read-only location.
\<close>

theorem trackCostBasis_absent_witness:
  "no_prior_record demo_world (createTracker None) demo_wallet ''MintA'' \<and>
   plain_key demo_wallet ''MintA'' \<and>
   costBasisFile (createTracker None) = None \<and> fs_writable demo_world \<and>
   fst (trackCostBasis demo_world (createTracker None) demo_wallet ''MintA'') = Inr (Number 0) \<and>
   costBasisFile (snd (trackCostBasis demo_world (createTracker None) demo_wallet ''MintA''))
     = Some ''{}'' \<and>
   fst (trackCostBasis readonly_world (createTracker None) demo_wallet ''MintA'')
     = Inr (Number 0) \<and>
   costBasisFile (snd (trackCostBasis readonly_world (createTracker None) demo_wallet ''MintA''))
     = None"
proof -
  have absent: "no_prior_record demo_world (createTracker None) demo_wallet ''MintA''"
    and absent': "no_prior_record readonly_world (createTracker None) demo_wallet ''MintA''"
    by (simp_all add: no_prior_record_def createTracker_def)
  have plain: "plain_key demo_wallet ''MintA''"
    by (simp add: plain_key_def Object_prototype_keys_def demo_wallet_def)
  have missing: "costBasisFile (createTracker None) = None"
    by (simp add: createTracker_def)
  have writable: "fs_writable demo_world" and readonly: "\<not> fs_writable readonly_world"
    by (simp_all add: demo_defs)
  show ?thesis
    using trackCostBasis_absent [OF absent plain] trackCostBasis_absent [OF absent' plain]
      absent plain missing writable readonly
    by simp
qed

text \<open>
  C7. For an address that is undefined, empty or shorter than 32 characters, the
  controller answers 400 with \<open>success: false\<close> and the fixed message, and hands back
  the state it was given, whatever \<open>calculateGains\<close> would do to it: the service is not
  called, and with it neither the holdings nor the price collaborators. With the tracker's
  \<open>calculateGains\<close> as the service, any call of which adds to the trace, the trace stays
  as it was: no RPC request, no HTTP request.
\<close>

theorem getWalletGains_invalid_address:
  assumes "case address of None \<Rightarrow> True | Some addr \<Rightarrow> length addr < 32"
  shows "getWalletGains calc address s
           = (Responded 400 (MessageBody False ''Invalid wallet address''), s) \<and>
         trace (snd (getWalletGains (\<lambda>addr t. calculateGains w now t addr) address t)) = trace t"
  using assms by (simp add: getWalletGains_def split: option.splits)

text \<open>
  Witness for C7: a 14-character address, with the tracker's own \<open>calculateGains\<close> as
  the service.
\<close>

theorem getWalletGains_invalid_address_witness:
  "length ''So1anaTooShort'' < 32 \<and>
   getWalletGains (\<lambda>addr s. calculateGains demo_world 1000 s addr) (Some ''So1anaTooShort'') demo_tracker
     = (Responded 400 (MessageBody False ''Invalid wallet address''), demo_tracker) \<and>
   trace (snd (getWalletGains (\<lambda>addr s. calculateGains demo_world 1000 s addr)
                 (Some ''So1anaTooShort'') demo_tracker)) = []"
proof -
  have short: "case Some ''So1anaTooShort'' of None \<Rightarrow> True | Some addr \<Rightarrow> length addr < 32"
    by simp
  have fresh: "trace demo_tracker = []"
    by (simp add: demo_defs)
  show ?thesis
    using getWalletGains_invalid_address
      [OF short, of "\<lambda>addr s. calculateGains demo_world 1000 s addr" demo_tracker demo_world 1000
        demo_tracker]
      fresh
    by simp
qed

text \<open>
  C8 as amended. The claim: the message of an escalated error does not contain the
  internal message. The code quotes it. An address that fails validation is logged, and
  the call rejects with \<open>Wallet gains calculation failed: Invalid Solana wallet address\<close>,
  a text that does not depend on the address. A failed holdings fetch rejects with
  \<open>Wallet gains calculation failed: \<close> followed by the collaborator's own message,
  which is logged as well. In every other case the call fulfils: nothing else is
  escalated.
\<close>

theorem calculateGains_escalation:
  "(PublicKey w walletAddress = Inl err \<longrightarrow>
      calculateGains w now s walletAddress =
        (Inl ''Wallet gains calculation failed: Invalid Solana wallet address'',
         s\<lparr>trace := trace s @
              [Logged Error (''Invalid wallet address: '' @ walletAddress),
               Logged Error ''Gains calculation error: Invalid Solana wallet address'']\<rparr>)) \<and>
   (PublicKey w walletAddress = Inr publicKey \<and>
    getParsedTokenAccountsByOwner w publicKey = Inl internal \<longrightarrow>
      calculateGains w now s walletAddress =
        (Inl (''Wallet gains calculation failed: '' @ internal),
         s\<lparr>trace := trace s @
              [RpcTokenAccounts publicKey,
               Logged Error (''Gains calculation error: '' @ internal)]\<rparr>)) \<and>
   (PublicKey w walletAddress = Inr publicKey \<and>
    getParsedTokenAccountsByOwner w publicKey = Inr tokenAccounts \<longrightarrow>
      (\<exists>results. fst (calculateGains w now s walletAddress) = Inr results))"
proof (intro conjI impI)
  assume "PublicKey w walletAddress = Inl err"
  then show "calculateGains w now s walletAddress =
        (Inl ''Wallet gains calculation failed: Invalid Solana wallet address'',
         s\<lparr>trace := trace s @
              [Logged Error (''Invalid wallet address: '' @ walletAddress),
               Logged Error ''Gains calculation error: Invalid Solana wallet address'']\<rparr>)"
    by (simp add: calculateGains_def validateWalletAddress_def escalate_def logger_def
        record_event_def)
next
  assume "PublicKey w walletAddress = Inr publicKey \<and>
    getParsedTokenAccountsByOwner w publicKey = Inl internal"
  then show "calculateGains w now s walletAddress =
        (Inl (''Wallet gains calculation failed: '' @ internal),
         s\<lparr>trace := trace s @
              [RpcTokenAccounts publicKey,
               Logged Error (''Gains calculation error: '' @ internal)]\<rparr>)"
    by (simp add: calculateGains_def validateWalletAddress_def escalate_def logger_def
        record_event_def Let_def)
next
  assume "PublicKey w walletAddress = Inr publicKey \<and>
    getParsedTokenAccountsByOwner w publicKey = Inr tokenAccounts"
  then show "\<exists>results. fst (calculateGains w now s walletAddress) = Inr results"
    using calculateGains_value [of w walletAddress publicKey tokenAccounts now s] by simp
qed

text \<open>
  Counterexample to C8 as stated: the RPC node refuses the connection, and the raised
  message contains the node's message.
\<close>

theorem calculateGains_leaks_counterexample:
  "getParsedTokenAccountsByOwner rpc_down_world demo_wallet
     = Inl ''connect ECONNREFUSED 10.0.0.5:8899'' \<and>
   fst (calculateGains rpc_down_world 1000 demo_tracker demo_wallet)
     = Inl ''Wallet gains calculation failed: connect ECONNREFUSED 10.0.0.5:8899'' \<and>
   sublist ''connect ECONNREFUSED 10.0.0.5:8899''
     ''Wallet gains calculation failed: connect ECONNREFUSED 10.0.0.5:8899''"
proof -
  have "sublist ''connect ECONNREFUSED 10.0.0.5:8899''
     (''Wallet gains calculation failed: '' @ ''connect ECONNREFUSED 10.0.0.5:8899'' @ [])"
    by (rule sublist_appendI)
  then show ?thesis
    by (simp add: demo_defs model_defs calculateGains_def escalate_def Let_def)
qed

text \<open>
  Witness for C8 as amended: an address with a character outside the base-58 alphabet,
  the refused connection, and the wallet with two token accounts.
\<close>

theorem calculateGains_escalation_witness:
  "PublicKey demo_world ''0xdeadbeef'' = Inl ''Invalid public key input'' \<and>
   calculateGains demo_world 1000 demo_tracker ''0xdeadbeef'' =
     (Inl ''Wallet gains calculation failed: Invalid Solana wallet address'',
      demo_tracker\<lparr>trace := trace demo_tracker @
        [Logged Error ''Invalid wallet address: 0xdeadbeef'',
         Logged Error ''Gains calculation error: Invalid Solana wallet address'']\<rparr>) \<and>
   PublicKey rpc_down_world demo_wallet = Inr demo_wallet \<and>
   getParsedTokenAccountsByOwner rpc_down_world demo_wallet
     = Inl ''connect ECONNREFUSED 10.0.0.5:8899'' \<and>
   calculateGains rpc_down_world 1000 demo_tracker demo_wallet =
     (Inl ''Wallet gains calculation failed: connect ECONNREFUSED 10.0.0.5:8899'',
      demo_tracker\<lparr>trace := trace demo_tracker @
        [RpcTokenAccounts demo_wallet,
         Logged Error ''Gains calculation error: connect ECONNREFUSED 10.0.0.5:8899'']\<rparr>) \<and>
   PublicKey demo_world demo_wallet = Inr demo_wallet \<and>
   (\<exists>results. fst (calculateGains demo_world 1000 demo_tracker demo_wallet) = Inr results)"
proof -
  have invalid: "PublicKey demo_world ''0xdeadbeef'' = Inl ''Invalid public key input''"
    by (simp add: demo_defs model_defs)
  have key: "PublicKey rpc_down_world demo_wallet = Inr demo_wallet"
    and key': "PublicKey demo_world demo_wallet = Inr demo_wallet"
    by (simp_all add: demo_defs model_defs)
  have rpc: "getParsedTokenAccountsByOwner rpc_down_world demo_wallet
      = Inl ''connect ECONNREFUSED 10.0.0.5:8899''"
    by (simp add: demo_defs)
  have fetched: "getParsedTokenAccountsByOwner demo_world demo_wallet
      = Inr [\<lparr>mint = ''MintA'', uiAmount = 10\<rparr>, \<lparr>mint = ''MintB'', uiAmount = 1\<rparr>]"
    by (simp add: demo_defs)
  show ?thesis
    using calculateGains_escalation
        [of demo_world "''0xdeadbeef''" "''Invalid public key input''" 1000 demo_tracker]
      calculateGains_escalation
        [of rpc_down_world demo_wallet _ 1000 demo_tracker demo_wallet
          "''connect ECONNREFUSED 10.0.0.5:8899''"]
      calculateGains_escalation
        [of demo_world demo_wallet _ 1000 demo_tracker demo_wallet _
          "[\<lparr>mint = ''MintA'', uiAmount = 10\<rparr>, \<lparr>mint = ''MintB'', uiAmount = 1\<rparr>]"]
      invalid key key' rpc fetched
    by simp
qed

text \<open>
  C9. Every result returned is the record of the spec for one of the wallet's holdings:
  its price is the price the oracle resolves for the holding's mint, its amount the
  holding's, its cost basis the recorded one, which is a number,
  \<open>totalValue = currentPrice * amount\<close> and \<open>unrealizedGain = totalValue - costBasis\<close>.
  Its total value is above zero: the record of a holding whose total value is not above
  zero is not returned, and no result is returned for a holding whose resolved price
  is \<open>0\<close>.
\<close>

theorem calculateGains_results:
  assumes returned: "fst (calculateGains w now s walletAddress) = Inr results"
  shows "\<exists>publicKey tokenAccounts.
           PublicKey w walletAddress = Inr publicKey \<and>
           getParsedTokenAccountsByOwner w publicKey = Inr tokenAccounts \<and>
           (\<forall>r\<in>set results.
              (\<exists>account\<in>set tokenAccounts. r = gain_result_of w now s walletAddress account) \<and>
              totalValue r = currentPrice r * amount r \<and>
              (\<exists>basis. costBasis r = Number basis \<and>
                       unrealizedGain r = Number (totalValue r - basis)) \<and>
              0 < totalValue r) \<and>
           (\<forall>account\<in>set tokenAccounts.
              totalValue (gain_result_of w now s walletAddress account) \<le> 0 \<longrightarrow>
              gain_result_of w now s walletAddress account \<notin> set results) \<and>
           (\<forall>account\<in>set tokenAccounts.
              resolved_price w now s (mint account) = 0 \<longrightarrow>
              (\<forall>r\<in>set results. token r \<noteq> mint account))"
proof -
  obtain publicKey tokenAccounts
    where valid: "PublicKey w walletAddress = Inr publicKey"
      and fetched: "getParsedTokenAccountsByOwner w publicKey = Inr tokenAccounts"
    using calculateGains_fulfilled [OF returned] by blast
  let ?of = "gain_result_of w now s walletAddress"
  have results: "results = filter (\<lambda>result. 0 < totalValue result) (map ?of tokenAccounts)"
    using calculateGains_value [OF valid fetched, of now s] returned by simp
  have number: "\<exists>basis. costBasis (?of account) = Number basis \<and>
      unrealizedGain (?of account) = Number (totalValue (?of account) - basis)" for account
  proof -
    obtain b where "fst (trackCostBasis w s walletAddress (mint account)) = Inr (Number b)"
      using trackCostBasis_plain PublicKey_plain [OF valid] by blast
    then show ?thesis
      by (simp add: gain_result_of_def recorded_basis_def)
  qed
  have each: "(\<exists>account\<in>set tokenAccounts. r = ?of account) \<and>
      totalValue r = currentPrice r * amount r \<and>
      (\<exists>basis. costBasis r = Number basis \<and> unrealizedGain r = Number (totalValue r - basis)) \<and>
      0 < totalValue r" if member: "r \<in> set results" for r
  proof -
    obtain account where account: "account \<in> set tokenAccounts" "r = ?of account"
      and positive: "0 < totalValue r"
      using member results by auto
    have "totalValue r = currentPrice r * amount r"
      using account(2) by (simp add: gain_result_of_def)
    then show ?thesis
      using account positive number [of account] by blast
  qed
  have dropped: "?of account \<notin> set results"
    if "totalValue (?of account) \<le> 0" for account
    using that results by auto
  have unpriced: "token r \<noteq> mint account"
    if no_price: "resolved_price w now s (mint account) = 0" and member: "r \<in> set results"
    for account r
  proof
    assume same: "token r = mint account"
    obtain account' where "r = ?of account'" and positive: "0 < totalValue r"
      using member results by auto
    then have "totalValue r = resolved_price w now s (token r) * amount r"
      by (simp add: gain_result_of_def)
    then show False using same no_price positive by simp
  qed
  show ?thesis
    using valid fetched each dropped unpriced by blast
qed

text \<open>
  Witness for C9: the wallet with two token accounts where \<open>MintB\<close> has no price. The
  one result returned is the record of the \<open>MintA\<close> holding.
\<close>

theorem calculateGains_results_witness:
  "fst (calculateGains unlisted_world 1000 demo_tracker demo_wallet) = Inr [demo_gain_A] \<and>
   getParsedTokenAccountsByOwner unlisted_world demo_wallet
     = Inr [\<lparr>mint = ''MintA'', uiAmount = 10\<rparr>, \<lparr>mint = ''MintB'', uiAmount = 1\<rparr>] \<and>
   resolved_price unlisted_world 1000 demo_tracker ''MintB'' = 0 \<and>
   token demo_gain_A \<noteq> ''MintB'' \<and>
   totalValue demo_gain_A = currentPrice demo_gain_A * amount demo_gain_A \<and>
   (\<exists>basis. costBasis demo_gain_A = Number basis \<and>
            unrealizedGain demo_gain_A = Number (totalValue demo_gain_A - basis)) \<and>
   0 < totalValue demo_gain_A"
proof -
  let ?accounts = "[\<lparr>mint = ''MintA'', uiAmount = 10\<rparr>, \<lparr>mint = ''MintB'', uiAmount = 1\<rparr>]"
  have returned: "fst (calculateGains unlisted_world 1000 demo_tracker demo_wallet)
      = Inr [demo_gain_A]"
    by (rule unlisted_gains)
  have key: "PublicKey unlisted_world demo_wallet = Inr demo_wallet"
    by (simp add: demo_defs model_defs)
  have fetched: "getParsedTokenAccountsByOwner unlisted_world demo_wallet = Inr ?accounts"
    by (simp add: demo_defs)
  have unpriced: "resolved_price unlisted_world 1000 demo_tracker ''MintB'' = 0"
    by (simp add: resolved_price_def demo_defs model_defs Let_def)
  obtain publicKey tokenAccounts where
    "PublicKey unlisted_world demo_wallet = Inr publicKey"
    "getParsedTokenAccountsByOwner unlisted_world publicKey = Inr tokenAccounts"
    and each: "\<forall>r\<in>set [demo_gain_A].
        (\<exists>account\<in>set tokenAccounts.
            r = gain_result_of unlisted_world 1000 demo_tracker demo_wallet account) \<and>
        totalValue r = currentPrice r * amount r \<and>
        (\<exists>basis. costBasis r = Number basis \<and>
                 unrealizedGain r = Number (totalValue r - basis)) \<and>
        0 < totalValue r"
    and unpriced_out: "\<forall>account\<in>set tokenAccounts.
        resolved_price unlisted_world 1000 demo_tracker (mint account) = 0 \<longrightarrow>
        (\<forall>r\<in>set [demo_gain_A]. token r \<noteq> mint account)"
    using calculateGains_results [OF returned] by blast
  then have "tokenAccounts = ?accounts"
    using key fetched by simp
  then have "token demo_gain_A \<noteq> ''MintB''"
    using unpriced_out unpriced by simp
  then show ?thesis
    using returned fetched unpriced each by auto
qed

text \<open>
  C10 as amended. The claim: on a parse error the file is overwritten with an empty
  object before \<open>0\<close> is returned. In the code this rests on the write. When the file
  exists and its content does not parse, the method fulfils with \<open>0\<close> for a plain key;
  when the file can be written it holds an empty object afterwards, it is not what it
  was, and every later lookup of a plain key gives \<open>0\<close>: what the file recorded is
  lost. When the write fails the file is left as it was and the failure is logged as an
  error.
\<close>

theorem trackCostBasis_parse_error_overwrites:
  assumes cfile: "costBasisFile s = Some fileContent"
    and corrupt: "JSON_parse_object w fileContent = Inl err"
    and plain: "plain_key walletAddress m"
  shows "fst (trackCostBasis w s walletAddress m) = Inr (Number 0) \<and>
         (fs_writable w \<longrightarrow>
            costBasisFile (snd (trackCostBasis w s walletAddress m)) = Some ''{}'' \<and>
            costBasisFile (snd (trackCostBasis w s walletAddress m)) \<noteq> costBasisFile s \<and>
            FsWrite ''{}'' \<in> set (trace (snd (trackCostBasis w s walletAddress m))) \<and>
            (\<forall>wa' m'. plain_key wa' m' \<longrightarrow>
               fst (trackCostBasis w (snd (trackCostBasis w s walletAddress m)) wa' m')
                 = Inr (Number 0))) \<and>
         (\<not> fs_writable w \<longrightarrow>
            costBasisFile (snd (trackCostBasis w s walletAddress m)) = costBasisFile s \<and>
            (\<exists>failure. last (trace (snd (trackCostBasis w s walletAddress m)))
                         = Logged Error (''Cost basis tracking error: '' @ failure)))"
proof -
  let ?s' = "snd (trackCostBasis w s walletAddress m)"
  have unreadable: "costBasisFile s = None \<or>
      (\<exists>fileContent err. costBasisFile s = Some fileContent \<and>
         JSON_parse_object w fileContent = Inl err)"
    using cfile corrupt by blast
  have zero: "fst (trackCostBasis w s walletAddress m) = Inr (Number 0)"
    using cfile corrupt plain
    by (intro trackCostBasis_no_record) (simp_all add: no_prior_record_def)
  have writable: "costBasisFile ?s' = Some ''{}'' \<and> costBasisFile ?s' \<noteq> costBasisFile s \<and>
      FsWrite ''{}'' \<in> set (trace ?s') \<and>
      (\<forall>wa' m'. plain_key wa' m' \<longrightarrow> fst (trackCostBasis w ?s' wa' m') = Inr (Number 0))"
    if w: "fs_writable w"
  proof -
    have after: "?s' = record_event (FsWrite ''{}'')
        ((record_event FsRead s)\<lparr>costBasisFile := Some ''{}''\<rparr>)"
      using trackCostBasis_creates [OF w unreadable] .
    have emptied: "costBasisFile ?s' = Some ''{}''"
      by (simp add: after)
    have changed: "costBasisFile ?s' \<noteq> costBasisFile s"
      using emptied cfile corrupt by auto
    have written: "FsWrite ''{}'' \<in> set (trace ?s')"
      by (simp add: after)
    have lost: "fst (trackCostBasis w ?s' wa' m') = Inr (Number 0)"
      if "plain_key wa' m'" for wa' m'
      using emptied that
      by (intro trackCostBasis_no_record) (simp_all add: no_prior_record_def)
    show ?thesis using emptied changed written lost by blast
  qed
  have readonly: "costBasisFile ?s' = costBasisFile s \<and>
      last (trace ?s') = Logged Error (''Cost basis tracking error: '' @ ''EACCES: permission denied'')"
    if w: "\<not> fs_writable w"
    using trackCostBasis_write_fails [OF w unreadable, of walletAddress m] by simp
  show ?thesis
    using zero writable readonly by blast
qed

text \<open>
  Counterexample to C10 as stated: on a read-only location the file that does not parse
  is left as it was.
\<close>

theorem trackCostBasis_parse_error_counterexample:
  "costBasisFile (createTracker (Some ''{broken'')) = Some ''{broken'' \<and>
   JSON_parse_object readonly_world ''{broken'' = Inl ''Unexpected token in JSON'' \<and>
   fst (trackCostBasis readonly_world (createTracker (Some ''{broken'')) demo_wallet ''MintA'')
     = Inr (Number 0) \<and>
   costBasisFile
     (snd (trackCostBasis readonly_world (createTracker (Some ''{broken'')) demo_wallet ''MintA''))
     = Some ''{broken''"
  by (simp add: demo_defs model_defs)

text \<open>
  Witness for C10 as amended: a file holding \<open>{broken\<close>, on a writable and on a
  read-only location.
\<close>

theorem trackCostBasis_parse_error_witness:
  "costBasisFile (createTracker (Some ''{broken'')) = Some ''{broken'' \<and>
   JSON_parse_object demo_world ''{broken'' = Inl ''Unexpected token in JSON'' \<and>
   plain_key demo_wallet ''MintA'' \<and> plain_key demo_wallet ''MintB'' \<and>
   fs_writable demo_world \<and>
   fst (trackCostBasis demo_world (createTracker (Some ''{broken'')) demo_wallet ''MintA'')
     = Inr (Number 0) \<and>
   costBasisFile
     (snd (trackCostBasis demo_world (createTracker (Some ''{broken'')) demo_wallet ''MintA''))
     = Some ''{}'' \<and>
   fst (trackCostBasis demo_world
          (snd (trackCostBasis demo_world (createTracker (Some ''{broken'')) demo_wallet ''MintA''))
          demo_wallet ''MintB'')
     = Inr (Number 0) \<and>
   costBasisFile
     (snd (trackCostBasis readonly_world (createTracker (Some ''{broken'')) demo_wallet ''MintA''))
     = Some ''{broken''"
proof -
  have cfile: "costBasisFile (createTracker (Some ''{broken'')) = Some ''{broken''"
    by (simp add: createTracker_def)
  have corrupt: "JSON_parse_object demo_world ''{broken'' = Inl ''Unexpected token in JSON''"
    and corrupt': "JSON_parse_object readonly_world ''{broken'' = Inl ''Unexpected token in JSON''"
    by (simp_all add: demo_defs model_defs)
  have plain: "plain_key demo_wallet ''MintA''" and plain': "plain_key demo_wallet ''MintB''"
    by (simp_all add: plain_key_def Object_prototype_keys_def demo_wallet_def)
  have writable: "fs_writable demo_world" and readonly: "\<not> fs_writable readonly_world"
    by (simp_all add: demo_defs)
  show ?thesis
    using trackCostBasis_parse_error_overwrites [OF cfile corrupt plain]
      trackCostBasis_parse_error_overwrites [OF cfile corrupt' plain]
      cfile corrupt plain plain' writable readonly
    by simp
qed

end
